theory Spec2Isabelle
  imports Complex_Main "HOL-Library.Sublist"
begin

section \<open>JavaScript values used by the receipt pipeline\<close>

text \<open>
  A JavaScript string is modelled as the list of its UTF-16 code units, for strings whose
  code units are all below 256 (the Latin-1 range): a \<open>char\<close> is one code unit. Every
  pattern and literal of the program is ASCII.

  A value of type \<^verbatim>\<open>T | undefined\<close> is a \<open>T option\<close>.
\<close>

subsection \<open>Numbers\<close>

text \<open>
  A JavaScript \<^verbatim>\<open>number\<close> is an IEEE 754 double. \<open>Fin q\<close> is the finite double whose
  value is the rational \<open>q\<close>; the two zeros are not distinguished, since no operation
  used here tells them apart. NaN is not a \<open>number\<close> here: an expression of type
  \<^verbatim>\<open>number\<close> evaluates to a \<open>number option\<close>, where \<open>None\<close> stands for NaN and
  for \<^verbatim>\<open>undefined\<close>, which are both falsy and both make every arithmetic result NaN
  and every comparison false.
\<close>

datatype number = Fin rat | Infinity | NegInfinity

instantiation number :: zero
begin

definition zero_number :: number where
  "zero_number = Fin 0"

instance ..

end

text \<open>
  Rounding of a real result to a double, to nearest with ties to even: 53 significant bits
  down to the exponent -1022, multiples of \<open>2 ^ -1074\<close> below (the subnormal range), and
  an infinity from \<open>2 ^ 1024\<close> on. \<open>bitlen n\<close> is the number of binary digits of \<open>n\<close>
  and \<open>ilog2 x\<close> the integer part of the binary logarithm of a positive \<open>x\<close>.
\<close>

function bitlen :: "int \<Rightarrow> nat" where
  "bitlen n = (if n \<le> 0 then 0 else Suc (bitlen (n div 2)))"
  by pat_completeness auto
termination
  by (relation "measure nat") auto

declare bitlen.simps [simp del]

definition pow2 :: "int \<Rightarrow> rat" where
  "pow2 k = (if 0 \<le> k then 2 ^ nat k else 1 / 2 ^ nat (- k))"

definition ilog2 :: "rat \<Rightarrow> int" where
  "ilog2 x =
     (if 1 \<le> x then int (bitlen \<lfloor>x\<rfloor>) - 1
      else - int (bitlen (\<lceil>1 / x\<rceil> - 1)))"

definition roundHalfEven :: "rat \<Rightarrow> int" where
  "roundHalfEven q =
     (let f = \<lfloor>q\<rfloor>; r = q - of_int f
      in if r < 1 / 2 then f
         else if 1 / 2 < r then f + 1
         else if even f then f else f + 1)"

definition roundDouble :: "rat \<Rightarrow> number" where
  "roundDouble x =
     (if x = 0 then Fin 0
      else
        let a = \<bar>x\<bar>;
            e = max (ilog2 a) (- 1022);
            ulp = pow2 (e - 52);
            v = of_int (roundHalfEven (a / ulp)) * ulp
        in if pow2 1024 \<le> v then (if 0 < x then Infinity else NegInfinity)
           else Fin (if 0 < x then v else - v))"

text \<open>
  The operators \<^verbatim>\<open>+\<close>, \<^verbatim>\<open>-\<close>, \<^verbatim>\<open>*\<close>, \<^verbatim>\<open>Math.abs\<close> and \<^verbatim>\<open>>\<close> on doubles. A
  result that is NaN is \<open>None\<close>.
\<close>

fun addDouble :: "number \<Rightarrow> number \<Rightarrow> number option" where
  "addDouble (Fin a) (Fin b) = Some (roundDouble (a + b))"
| "addDouble Infinity NegInfinity = None"
| "addDouble NegInfinity Infinity = None"
| "addDouble Infinity y = Some Infinity"
| "addDouble x Infinity = Some Infinity"
| "addDouble NegInfinity y = Some NegInfinity"
| "addDouble x NegInfinity = Some NegInfinity"

fun negDouble :: "number \<Rightarrow> number" where
  "negDouble (Fin a) = Fin (- a)"
| "negDouble Infinity = NegInfinity"
| "negDouble NegInfinity = Infinity"

definition subDouble :: "number \<Rightarrow> number \<Rightarrow> number option" where
  "subDouble x y = addDouble x (negDouble y)"

fun isNegative :: "number \<Rightarrow> bool" where
  "isNegative (Fin a) = (a < 0)"
| "isNegative Infinity = False"
| "isNegative NegInfinity = True"

fun mulDouble :: "number \<Rightarrow> number \<Rightarrow> number option" where
  "mulDouble (Fin a) (Fin b) = Some (roundDouble (a * b))"
| "mulDouble x y =
     (if x = 0 \<or> y = 0 then None
      else if isNegative x = isNegative y then Some Infinity
      else Some NegInfinity)"

fun absDouble :: "number \<Rightarrow> number" where
  "absDouble (Fin a) = Fin \<bar>a\<bar>"
| "absDouble Infinity = Infinity"
| "absDouble NegInfinity = Infinity"

fun gtDouble :: "number \<Rightarrow> number \<Rightarrow> bool" where
  "gtDouble (Fin a) (Fin b) = (b < a)"
| "gtDouble Infinity y = (y \<noteq> Infinity)"
| "gtDouble x NegInfinity = (x \<noteq> NegInfinity)"
| "gtDouble x y = False"

text \<open>The same operators on expressions, whose operands may be NaN or \<^verbatim>\<open>undefined\<close>.\<close>

definition addNum :: "number option \<Rightarrow> number option \<Rightarrow> number option" where
  "addNum a b = (case (a, b) of (Some x, Some y) \<Rightarrow> addDouble x y | _ \<Rightarrow> None)"

definition subNum :: "number option \<Rightarrow> number option \<Rightarrow> number option" where
  "subNum a b = (case (a, b) of (Some x, Some y) \<Rightarrow> subDouble x y | _ \<Rightarrow> None)"

definition mulNum :: "number option \<Rightarrow> number option \<Rightarrow> number option" where
  "mulNum a b = (case (a, b) of (Some x, Some y) \<Rightarrow> mulDouble x y | _ \<Rightarrow> None)"

definition absNum :: "number option \<Rightarrow> number option" where
  "absNum a = map_option absDouble a"

definition gtNum :: "number option \<Rightarrow> number option \<Rightarrow> bool" where
  "gtNum a b = (case (a, b) of (Some x, Some y) \<Rightarrow> gtDouble x y | _ \<Rightarrow> False)"

text \<open>Truthiness of \<^verbatim>\<open>number | undefined\<close>: \<^verbatim>\<open>undefined\<close>, NaN and \<^verbatim>\<open>0\<close> are
  falsy. For a string, \<^verbatim>\<open>undefined\<close> and the empty string are falsy.\<close>

definition truthyNum :: "number option \<Rightarrow> bool" where
  "truthyNum x = (case x of None \<Rightarrow> False | Some n \<Rightarrow> n \<noteq> 0)"

text \<open>\<^verbatim>\<open>a || b\<close> on optional numbers and on optional strings.\<close>

definition orNum :: "number option \<Rightarrow> number option \<Rightarrow> number option" where
  "orNum a b = (if truthyNum a then a else b)"

definition orStr :: "string option \<Rightarrow> string \<Rightarrow> string" where
  "orStr a b = (case a of None \<Rightarrow> b | Some s \<Rightarrow> if s \<noteq> [] then s else b)"

text \<open>\<^verbatim>\<open>a || d\<close> where \<^verbatim>\<open>d\<close> is a number: the result is a number.\<close>

definition orNumDefault :: "number option \<Rightarrow> number \<Rightarrow> number" where
  "orNumDefault a d = (case a of None \<Rightarrow> d | Some n \<Rightarrow> if n \<noteq> 0 then n else d)"

text \<open>The character class \<^verbatim>\<open>\d\<close> (without the unicode flag): the ten ASCII digits.\<close>

definition isDigit :: "char \<Rightarrow> bool" where
  "isDigit c = (c \<in> set ''0123456789'')"

definition digitValue :: "char \<Rightarrow> nat" where
  "digitValue c = of_char c - 48"

text \<open>
  \<^verbatim>\<open>parseInt(s, 10)\<close> reads the longest prefix of digits, most significant first, and is
  NaN (here \<open>None\<close>) when that prefix is empty; otherwise it is the double nearest to the
  integer read, as V8 computes it. Both callers pass strings made of digits only, so the
  leading white space and sign that \<^verbatim>\<open>parseInt\<close> would skip never occur.
\<close>

definition parseDigits :: "string \<Rightarrow> nat" where
  "parseDigits ds = foldl (\<lambda>n c. 10 * n + digitValue c) 0 ds"

definition parseInt :: "string \<Rightarrow> number option" where
  "parseInt s =
     (let ds = takeWhile isDigit s
      in if ds = [] then None else Some (roundDouble (of_nat (parseDigits ds))))"

section \<open>extraction.types.ts: the canonical receipt\<close>

record VendorInfo =
  vendor_name :: string
  address :: "string option"
  phone :: "string option"
  businessNumber :: "string option"

subsection \<open>parseCordPrice\<close>

text \<open>
  \<^verbatim>\<open>
  export function parseCordPrice(priceStr: string | undefined): number | undefined {
    if (!priceStr) return undefined;
    const cleaned = priceStr.replace(/[^\d]/g, '');
    return cleaned ? parseInt(cleaned, 10) : undefined;
  }
  \<close>
\<close>

definition parseCordPrice :: "string option \<Rightarrow> number option" where
  "parseCordPrice priceStr =
     (case priceStr of
        None \<Rightarrow> None
      | Some s \<Rightarrow>
          if s = [] then None
          else let cleaned = filter isDigit s
               in if cleaned \<noteq> [] then parseInt cleaned else None)"

datatype LineItem = LineItem
  (name: string)
  (quantity: number)
  (unitPrice: "number option")
  (totalPrice: number)
  (subItems: "LineItem list option")

datatype PaymentMethod = cash | card | mixed | other

text \<open>
  \<^verbatim>\<open>totalAmount\<close> is declared \<^verbatim>\<open>number\<close>, but the validator tests it with \<^verbatim>\<open>!\<close>
  because a record read from JSON may lack it; the model keeps the absent field
  representable.
\<close>

record ReceiptData =
  date :: "string option"
  time :: "string option"
  subtotal :: "number option"
  taxAmount :: "number option"
  serviceCharge :: "number option"
  discount :: "number option"
  totalAmount :: "number option"
  paymentMethod :: PaymentMethod
  cashPaid :: "number option"
  cardPaid :: "number option"
  changeAmount :: "number option"
  itemTypeCount :: "number option"
  totalItemCount :: "number option"

record ExtractionData =
  vendor :: "VendorInfo option"
  receipt :: ReceiptData
  items :: "LineItem list"

record ExtractionResult =
  success :: bool
  confidence :: number
  errors :: "string list option"
  data :: ExtractionData
  rawOcrText :: "string option"
  processingTimeMs :: "number option"
  modelUsed :: "string option"

subsection \<open>validateExtractionResult\<close>

text \<open>
  The function returns a list of messages. Each message is a constructor here:
  \<^item> \<open>TotalAmountRequired\<close> is \<^verbatim>\<open>'Total amount is required'\<close>;
  \<^item> \<open>LineItemRequired\<close> is \<^verbatim>\<open>'At least one line item is required'\<close>;
  \<^item> \<open>ItemsSumMismatch s e\<close> is
    \<^verbatim>\<open>`Items sum (${itemsSum}) doesn't match subtotal (${expectedSubtotal})`\<close>
    with the two interpolated values.
\<close>

datatype ValidationError =
  TotalAmountRequired
  | LineItemRequired
  | ItemsSumMismatch "number option" "number option"

text \<open>\<^verbatim>\<open>result.data.items.reduce((sum, item) => sum + item.totalPrice, 0)\<close>\<close>

definition itemsSum :: "ExtractionResult \<Rightarrow> number option" where
  "itemsSum result =
     foldl (\<lambda>sum item. addNum sum (Some (totalPrice item))) (Some 0) (items (data result))"

text \<open>\<^verbatim>\<open>result.data.receipt.subtotal || result.data.receipt.totalAmount\<close>\<close>

definition expectedSubtotal :: "ExtractionResult \<Rightarrow> number option" where
  "expectedSubtotal result =
     orNum (subtotal (receipt (data result))) (totalAmount (receipt (data result)))"

text \<open>
  \<^verbatim>\<open>
  const tolerance = expectedSubtotal * 0.05;
  if (Math.abs(itemsSum - expectedSubtotal) > tolerance) { errors.push(...) }
  \<close>
  The literal \<^verbatim>\<open>0.05\<close> is the double nearest to 1/20. When \<^verbatim>\<open>expectedSubtotal\<close> is
  \<^verbatim>\<open>undefined\<close> both sides are NaN and the comparison is false.
\<close>

definition validateExtractionResult :: "ExtractionResult \<Rightarrow> ValidationError list" where
  "validateExtractionResult result =
     (let errors1 = (if \<not> truthyNum (totalAmount (receipt (data result)))
                     then [TotalAmountRequired] else []);
          errors2 = errors1 @ (if length (items (data result)) = 0
                               then [LineItemRequired] else []);
          tolerance = mulNum (expectedSubtotal result) (Some (roundDouble (1 / 20)))
      in if gtNum (absNum (subNum (itemsSum result) (expectedSubtotal result))) tolerance
         then errors2 @ [ItemsSumMismatch (itemsSum result) (expectedSubtotal result)]
         else errors2)"

subsection \<open>The CORD ground-truth record and cordToExtractionResult\<close>

datatype CordMenuItem = CordMenuItem
  (nm: "string option")
  (num: "string option")
  (unitprice: "string option")
  (cnt: "string option")
  (discountprice: "string option")
  (price: "string option")
  (itemsubtotal: "string option")
  (sub: "CordMenuItem list option")

record CordSubTotal =
  subtotal_price :: "string option"
  discount_price :: "string option"
  service_price :: "string option"
  othersvc_price :: "string option"
  tax_price :: "string option"

record CordTotal =
  total_price :: "string option"
  creditcardprice :: "string option"
  emoneyprice :: "string option"
  cashprice :: "string option"
  changeprice :: "string option"
  menutype_cnt :: "string option"
  menuqty_cnt :: "string option"

record CordStoreInfo =
  store_name :: "string option"
  addr :: "string option"
  tel :: "string option"
  fax :: "string option"
  biznum :: "string option"

record CordGtParse =
  menu :: "CordMenuItem list option"
  sub_total :: "CordSubTotal option"
  total :: "CordTotal option"
  store_info :: "CordStoreInfo option"

text \<open>Optional chaining \<^verbatim>\<open>obj?.field\<close> on an optional record with an optional field.\<close>

definition chain :: "'a option \<Rightarrow> ('a \<Rightarrow> 'b option) \<Rightarrow> 'b option" where
  "chain obj field = (case obj of None \<Rightarrow> None | Some x \<Rightarrow> field x)"

text \<open>The inner \<^verbatim>\<open>map\<close> over \<^verbatim>\<open>item.sub\<close>: a sub-item gets no \<^verbatim>\<open>subItems\<close>.\<close>

definition cordSubItem :: "CordMenuItem \<Rightarrow> LineItem" where
  "cordSubItem s =
     LineItem (orStr (nm s) ''Sub-item'')
       (orNumDefault (parseCordPrice (cnt s)) (Fin 1))
       (parseCordPrice (unitprice s))
       (orNumDefault (parseCordPrice (price s)) 0)
       None"

definition cordItem :: "CordMenuItem \<Rightarrow> LineItem" where
  "cordItem item =
     LineItem (orStr (nm item) ''Unknown Item'')
       (orNumDefault (parseCordPrice (cnt item)) (Fin 1))
       (parseCordPrice (unitprice item))
       (orNumDefault (parseCordPrice (price item)) 0)
       (map_option (map cordSubItem) (sub item))"

definition cordPaymentMethod :: "number option \<Rightarrow> number option \<Rightarrow> PaymentMethod" where
  "cordPaymentMethod cashPaid' cardPaid' =
     (if truthyNum cashPaid' \<and> truthyNum cardPaid' then mixed
      else if truthyNum cashPaid' then cash
      else if truthyNum cardPaid' then card
      else other)"

definition cordToExtractionResult :: "CordGtParse \<Rightarrow> ExtractionResult" where
  "cordToExtractionResult gtParse =
     (let items' = map cordItem (case menu gtParse of None \<Rightarrow> [] | Some m \<Rightarrow> m);
          totalAmount' = orNumDefault (parseCordPrice (chain (total gtParse) total_price)) 0;
          cashPaid' = parseCordPrice (chain (total gtParse) cashprice);
          cardPaid' = parseCordPrice (chain (total gtParse) creditcardprice);
          paymentMethod' = cordPaymentMethod cashPaid' cardPaid';
          vendor' =
            (case chain (store_info gtParse) store_name of
               None \<Rightarrow> None
             | Some n \<Rightarrow>
                 if n = [] then None
                 else Some \<lparr> vendor_name = n,
                             address = chain (store_info gtParse) addr,
                             phone = chain (store_info gtParse) tel,
                             businessNumber = chain (store_info gtParse) biznum \<rparr>)
      in \<lparr> success = True,
           confidence = Fin 1,
           errors = None,
           data = \<lparr> vendor = vendor',
                    receipt = \<lparr>
                      date = None,
                      time = None,
                      subtotal = parseCordPrice (chain (sub_total gtParse) subtotal_price),
                      taxAmount = parseCordPrice (chain (sub_total gtParse) tax_price),
                      serviceCharge = parseCordPrice (chain (sub_total gtParse) service_price),
                      discount = parseCordPrice (chain (sub_total gtParse) discount_price),
                      totalAmount = Some totalAmount',
                      paymentMethod = paymentMethod',
                      cashPaid = cashPaid',
                      cardPaid = cardPaid',
                      changeAmount = parseCordPrice (chain (total gtParse) changeprice),
                      itemTypeCount = parseCordPrice (chain (total gtParse) menutype_cnt),
                      totalItemCount = parseCordPrice (chain (total gtParse) menuqty_cnt) \<rparr>,
                    items = items' \<rparr>,
           rawOcrText = None,
           processingTimeMs = None,
           modelUsed = Some ''cord-ground-truth'' \<rparr>)"

section \<open>String operations of JavaScript\<close>

text \<open>
  \<^verbatim>\<open>s.toLowerCase()\<close>: the upper-case letters of the Latin-1 range are the ASCII letters
  A to Z and the code units 0xC0 to 0xDE without 0xD7; each has its lower-case letter 0x20
  above it.
\<close>

definition upperCaseUnits :: string where
  "upperCaseUnits =
     ''ABCDEFGHIJKLMNOPQRSTUVWXYZ'' @
     [CHR 0xC0, CHR 0xC1, CHR 0xC2, CHR 0xC3, CHR 0xC4, CHR 0xC5, CHR 0xC6, CHR 0xC7,
      CHR 0xC8, CHR 0xC9, CHR 0xCA, CHR 0xCB, CHR 0xCC, CHR 0xCD, CHR 0xCE, CHR 0xCF,
      CHR 0xD0, CHR 0xD1, CHR 0xD2, CHR 0xD3, CHR 0xD4, CHR 0xD5, CHR 0xD6,
      CHR 0xD8, CHR 0xD9, CHR 0xDA, CHR 0xDB, CHR 0xDC, CHR 0xDD, CHR 0xDE]"

definition lowerCaseUnits :: string where
  "lowerCaseUnits =
     ''abcdefghijklmnopqrstuvwxyz'' @
     [CHR 0xE0, CHR 0xE1, CHR 0xE2, CHR 0xE3, CHR 0xE4, CHR 0xE5, CHR 0xE6, CHR 0xE7,
      CHR 0xE8, CHR 0xE9, CHR 0xEA, CHR 0xEB, CHR 0xEC, CHR 0xED, CHR 0xEE, CHR 0xEF,
      CHR 0xF0, CHR 0xF1, CHR 0xF2, CHR 0xF3, CHR 0xF4, CHR 0xF5, CHR 0xF6,
      CHR 0xF8, CHR 0xF9, CHR 0xFA, CHR 0xFB, CHR 0xFC, CHR 0xFD, CHR 0xFE]"

definition toLowerChar :: "char \<Rightarrow> char" where
  "toLowerChar c =
     (case map_of (zip upperCaseUnits lowerCaseUnits) c of
        None \<Rightarrow> c
      | Some l \<Rightarrow> l)"

definition toLowerCase :: "string \<Rightarrow> string" where
  "toLowerCase s = map toLowerChar s"

text \<open>\<^verbatim>\<open>s.startsWith(p)\<close> and \<^verbatim>\<open>s.includes(p)\<close>.\<close>

fun startsWith :: "string \<Rightarrow> string \<Rightarrow> bool" where
  "startsWith s [] = True"
| "startsWith [] (p # ps) = False"
| "startsWith (c # cs) (p # ps) = (c = p \<and> startsWith cs ps)"

fun includesStr :: "string \<Rightarrow> string \<Rightarrow> bool" where
  "includesStr [] p = (p = [])"
| "includesStr (c # cs) p = (startsWith (c # cs) p \<or> includesStr cs p)"

text \<open>
  \<^verbatim>\<open>s.trim()\<close>: the white space and line terminators of the Latin-1 range are TAB, LF,
  VT, FF, CR, the space and the no-break space U+00A0.
\<close>

definition isSpace :: "char \<Rightarrow> bool" where
  "isSpace c =
     (c \<in> set [CHR 0x09, CHR 0x0A, CHR 0x0B, CHR 0x0C, CHR 0x0D, CHR '' '', CHR 0xA0])"

definition trim :: "string \<Rightarrow> string" where
  "trim s = rev (dropWhile isSpace (rev (dropWhile isSpace s)))"

text \<open>
  A regular expression that is an alternation of lower-case ASCII literals, with the flag
  \<^verbatim>\<open>i\<close>: \<^verbatim>\<open>/a|b|c/i.test(s)\<close> holds when some alternative occurs in \<open>s\<close>, the
  case of the ASCII letters ignored.
\<close>

definition testPattern :: "string list \<Rightarrow> string \<Rightarrow> bool" where
  "testPattern alternatives s = list_ex (includesStr (toLowerCase s)) alternatives"

text \<open>
  \<^verbatim>\<open>s.replace(/pat/g, '')\<close> for a literal pattern: every match, found from left to
  right, is removed. The first argument normalises the text before it is compared with the
  pattern: \<open>toLowerCase\<close> for the flag \<^verbatim>\<open>i\<close>, the identity otherwise.
\<close>

fun removeAllBy :: "(string \<Rightarrow> string) \<Rightarrow> string \<Rightarrow> string \<Rightarrow> string" where
  "removeAllBy nrm pat [] = []"
| "removeAllBy nrm pat (c # cs) =
     (if pat \<noteq> [] \<and> startsWith (nrm (c # cs)) pat
      then removeAllBy nrm pat (drop (length pat) (c # cs))
      else c # removeAllBy nrm pat cs)"

section \<open>The rule-based auditor chat route\<close>

subsection \<open>Query patterns and extractNumber\<close>

text \<open>The entries of \<^verbatim>\<open>QUERY_PATTERNS\<close> that \<^verbatim>\<open>parseQuery\<close> tests.\<close>

definition QUERY_PATTERNS_total_spending :: "string list" where
  "QUERY_PATTERNS_total_spending = [''how much'', ''total'', ''spent'', ''spending'', ''sum'']"

definition QUERY_PATTERNS_high_value :: "string list" where
  "QUERY_PATTERNS_high_value =
     [''above'', ''over'', ''more than'', ''greater'', ''expensive'', ''highest'']"

definition QUERY_PATTERNS_low_value :: "string list" where
  "QUERY_PATTERNS_low_value =
     [''below'', ''under'', ''less than'', ''cheaper'', ''lowest'', ''cheapest'']"

definition QUERY_PATTERNS_flagged :: "string list" where
  "QUERY_PATTERNS_flagged =
     [''flag'', ''error'', ''mismatch'', ''problem'', ''issue'', ''wrong'']"

definition QUERY_PATTERNS_payment_method :: "string list" where
  "QUERY_PATTERNS_payment_method = [''cash'', ''card'', ''credit'', ''e-money'', ''payment'']"

definition QUERY_PATTERNS_count :: "string list" where
  "QUERY_PATTERNS_count = [''how many'', ''count'', ''number of'']"

definition QUERY_PATTERNS_tax :: "string list" where
  "QUERY_PATTERNS_tax = [''tax'', ''vat'']"

definition QUERY_PATTERNS_audit :: "string list" where
  "QUERY_PATTERNS_audit = [''audit'', ''duplicate'', ''suspicious'', ''alcohol'', ''tobacco'']"

text \<open>
  \<^verbatim>\<open>
  function extractNumber(query: string): number | null {
    const match = query.match(/(\d+[\d,]*)/);
    if (match) { return parseInt(match[1].replace(/,/g, '')); }
    return null;
  }
  \<close>
  The match starts at the first digit of the query and takes the digits and commas that
  follow it.
\<close>

definition extractNumber :: "string \<Rightarrow> number option" where
  "extractNumber query =
     (case dropWhile (\<lambda>c. \<not> isDigit c) query of
        [] \<Rightarrow> None
      | d # rest \<Rightarrow>
          parseInt (filter (\<lambda>c. c \<noteq> CHR '','')
                      (takeWhile (\<lambda>c. isDigit c \<or> c = CHR '','') (d # rest))))"

subsection \<open>The query templates of parseQuery\<close>

definition sql_count_flagged :: string where
  "sql_count_flagged =
     ''SELECT COUNT(*) as count FROM receipts WHERE status = 'flagged'' @ [CHR 0x27]"

definition sql_count_all :: string where
  "sql_count_all =
     ''SELECT COUNT(*) as count, SUM(total_amount) as total FROM receipts''"

definition sql_total_spending :: string where
  "sql_total_spending =
     ''\<newline>'' @
     ''      SELECT \<newline>'' @
     ''        COUNT(*) as receipt_count,\<newline>'' @
     ''        SUM(total_amount) as total_spent,\<newline>'' @
     ''        SUM(tax_amount) as total_tax,\<newline>'' @
     ''        AVG(total_amount) as avg_receipt\<newline>'' @
     ''      FROM receipts\<newline>'' @
     ''    ''"

definition sql_flagged_receipts :: string where
  "sql_flagged_receipts =
     ''\<newline>'' @
     ''      SELECT r.id, r.total_amount, r.status, v.name as vendor\<newline>'' @
     ''      FROM receipts r\<newline>'' @
     ''      LEFT JOIN vendors v ON r.vendor_id = v.id\<newline>'' @
     ''      WHERE r.status = 'flagged'\<newline>'' @
     ''      ORDER BY r.total_amount DESC\<newline>'' @
     ''    ''"

definition sql_high_value_receipts :: string where
  "sql_high_value_receipts =
     ''\<newline>'' @
     ''      SELECT r.id, r.total_amount, r.payment_method, v.name as vendor\<newline>'' @
     ''      FROM receipts r\<newline>'' @
     ''      LEFT JOIN vendors v ON r.vendor_id = v.id\<newline>'' @
     ''      WHERE r.total_amount > ?\<newline>'' @
     ''      ORDER BY r.total_amount DESC\<newline>'' @
     ''      LIMIT 20\<newline>'' @
     ''    ''"

definition sql_low_value_receipts :: string where
  "sql_low_value_receipts =
     ''\<newline>'' @
     ''      SELECT r.id, r.total_amount, r.payment_method, v.name as vendor\<newline>'' @
     ''      FROM receipts r\<newline>'' @
     ''      LEFT JOIN vendors v ON r.vendor_id = v.id\<newline>'' @
     ''      WHERE r.total_amount < ?\<newline>'' @
     ''      ORDER BY r.total_amount ASC\<newline>'' @
     ''      LIMIT 20\<newline>'' @
     ''    ''"

definition sql_payment_cash :: string where
  "sql_payment_cash =
     ''\<newline>'' @
     ''        SELECT r.id, r.total_amount, r.payment_method, v.name as vendor\<newline>'' @
     ''        FROM receipts r\<newline>'' @
     ''        LEFT JOIN vendors v ON r.vendor_id = v.id\<newline>'' @
     ''        WHERE r.payment_method = 'cash'\<newline>'' @
     ''        ORDER BY r.total_amount DESC\<newline>'' @
     ''        LIMIT 20\<newline>'' @
     ''      ''"

definition sql_payment_card :: string where
  "sql_payment_card =
     ''\<newline>'' @
     ''        SELECT r.id, r.total_amount, r.payment_method, v.name as vendor\<newline>'' @
     ''        FROM receipts r\<newline>'' @
     ''        LEFT JOIN vendors v ON r.vendor_id = v.id\<newline>'' @
     ''        WHERE r.payment_method = 'card'\<newline>'' @
     ''        ORDER BY r.total_amount DESC\<newline>'' @
     ''        LIMIT 20\<newline>'' @
     ''      ''"

definition sql_payment_breakdown :: string where
  "sql_payment_breakdown =
     ''\<newline>'' @
     ''        SELECT payment_method, COUNT(*) as count, SUM(total_amount) as total\<newline>'' @
     ''        FROM receipts\<newline>'' @
     ''        GROUP BY payment_method\<newline>'' @
     ''        ORDER BY count DESC\<newline>'' @
     ''      ''"

definition sql_tax_info :: string where
  "sql_tax_info =
     ''\<newline>'' @
     ''      SELECT r.id, r.total_amount, r.tax_amount, v.name as vendor\<newline>'' @
     ''      FROM receipts r\<newline>'' @
     ''      LEFT JOIN vendors v ON r.vendor_id = v.id\<newline>'' @
     ''      WHERE r.tax_amount > 0\<newline>'' @
     ''      ORDER BY r.tax_amount DESC\<newline>'' @
     ''      LIMIT 20\<newline>'' @
     ''    ''"

definition sql_audit_findings :: string where
  "sql_audit_findings =
     ''\<newline>'' @
     ''      SELECT r.id, r.total_amount, r.status, r.tax_amount, v.name as vendor\<newline>'' @
     ''      FROM receipts r\<newline>'' @
     ''      LEFT JOIN vendors v ON r.vendor_id = v.id\<newline>'' @
     ''      WHERE r.status = 'flagged' OR r.tax_amount IS NULL OR r.tax_amount = 0\<newline>'' @
     ''      ORDER BY r.total_amount DESC\<newline>'' @
     ''      LIMIT 20\<newline>'' @
     ''    ''"

definition sql_list_receipts :: string where
  "sql_list_receipts =
     ''\<newline>'' @
     ''      SELECT r.id, r.total_amount, r.payment_method, r.status, v.name as vendor\<newline>'' @
     ''      FROM receipts r\<newline>'' @
     ''      LEFT JOIN vendors v ON r.vendor_id = v.id\<newline>'' @
     ''      ORDER BY r.total_amount DESC\<newline>'' @
     ''      LIMIT 15\<newline>'' @
     ''    ''"


subsection \<open>parseQuery\<close>

record ParsedQuery =
  sql :: string
  params :: "number list"
  intent :: string

definition parseQuery :: "string \<Rightarrow> ParsedQuery" where
  "parseQuery query =
     (let lowerQuery = toLowerCase query;
          isTotalQuery = testPattern QUERY_PATTERNS_total_spending lowerQuery;
          isHighValue = testPattern QUERY_PATTERNS_high_value lowerQuery;
          isLowValue = testPattern QUERY_PATTERNS_low_value lowerQuery;
          isFlagged = testPattern QUERY_PATTERNS_flagged lowerQuery;
          isPaymentQuery = testPattern QUERY_PATTERNS_payment_method lowerQuery;
          isCountQuery = testPattern QUERY_PATTERNS_count lowerQuery;
          isTaxQuery = testPattern QUERY_PATTERNS_tax lowerQuery;
          isAuditQuery = testPattern QUERY_PATTERNS_audit lowerQuery;
          threshold = extractNumber query
      in if isCountQuery \<and> isFlagged then
           \<lparr> sql = sql_count_flagged, params = [], intent = ''count_flagged'' \<rparr>
         else if isCountQuery then
           \<lparr> sql = sql_count_all, params = [], intent = ''count_all'' \<rparr>
         else if isTotalQuery \<and> \<not> isHighValue \<and> \<not> isLowValue then
           \<lparr> sql = sql_total_spending, params = [], intent = ''total_spending'' \<rparr>
         else if isFlagged then
           \<lparr> sql = sql_flagged_receipts, params = [], intent = ''flagged_receipts'' \<rparr>
         else if isHighValue \<and> truthyNum threshold then
           \<lparr> sql = sql_high_value_receipts, params = [the threshold],
             intent = ''high_value_receipts'' \<rparr>
         else if isLowValue \<and> truthyNum threshold then
           \<lparr> sql = sql_low_value_receipts, params = [the threshold],
             intent = ''low_value_receipts'' \<rparr>
         else if isPaymentQuery then
           \<lparr> sql = (if includesStr lowerQuery ''cash'' then sql_payment_cash
                    else if includesStr lowerQuery ''card'' then sql_payment_card
                    else sql_payment_breakdown),
             params = [], intent = ''payment_breakdown'' \<rparr>
         else if isTaxQuery then
           \<lparr> sql = sql_tax_info, params = [], intent = ''tax_info'' \<rparr>
         else if isAuditQuery then
           \<lparr> sql = sql_audit_findings, params = [], intent = ''audit_findings'' \<rparr>
         else
           \<lparr> sql = sql_list_receipts, params = [], intent = ''list_receipts'' \<rparr>)"

subsection \<open>Result rows\<close>

text \<open>
  A row returned by the store is an object from column names to values. Reading a column
  that the row does not have gives \<^verbatim>\<open>undefined\<close>.
\<close>

datatype JsValue = Undefined | Null | Num number | Str string

type_synonym Row = "(string \<times> JsValue) list"

definition getProp :: "Row \<Rightarrow> string \<Rightarrow> JsValue" where
  "getProp r k = (case map_of r k of None \<Rightarrow> Undefined | Some v \<Rightarrow> v)"

definition truthy :: "JsValue \<Rightarrow> bool" where
  "truthy v =
     (case v of
        Undefined \<Rightarrow> False
      | Null \<Rightarrow> False
      | Num n \<Rightarrow> n \<noteq> 0
      | Str s \<Rightarrow> s \<noteq> [])"

subsection \<open>generateResponse\<close>

text \<open>
  \<^verbatim>\<open>
  function generateResponse(intent: string, results: any[], query: string): string {
    if (results.length === 0) {
      return "I couldn't find any receipts matching your query.";
    }
    switch (intent) { ... }
  }
  \<close>
  The test for an empty result comes before the \<^verbatim>\<open>switch\<close> on the intent. The
  templates of the \<^verbatim>\<open>switch\<close>, which format a non-empty result, are the parameter
  \<open>templates\<close>.
\<close>

definition generateResponse ::
  "(string \<Rightarrow> Row list \<Rightarrow> string \<Rightarrow> string) \<Rightarrow> string \<Rightarrow> Row list \<Rightarrow> string \<Rightarrow> string" where
  "generateResponse templates intent' results query =
     (if length results = 0 then ''I couldn't find any receipts matching your query.''
      else templates intent' results query)"

subsection \<open>The store, the chat log and the HTTP response\<close>

record ChatMessage =
  msg_id :: string
  session_id :: string
  role :: string
  content :: string
  referenced_receipts :: "JsValue list option"

text \<open>
  The state that a request changes: the rows of \<^verbatim>\<open>chat_history\<close>, in insertion order,
  and the statements that were handed to the store (\<^verbatim>\<open>db.prepare(sql).all(...)\<close>), with
  their parameters, whether the store answered with rows or with an exception.
\<close>

record World =
  chat_history :: "ChatMessage list"
  executed :: "(string \<times> number list) list"

text \<open>
  What a request reads from outside: the rows (or the error text) that the store gives for
  a statement, the identifiers that \<^verbatim>\<open>uuidv4\<close> produces, the replies of the model
  endpoint to the two prompts built from a question, and the formatting code that is not
  modelled (\<open>templates\<close> above; the body of \<^verbatim>\<open>formatFallback\<close> for a non-empty result).
\<close>

datatype OllamaReply = FetchFailed | NotOk | Replied "string option"

record Env =
  db_all :: "string \<Rightarrow> number list \<Rightarrow> string + Row list"
  uuid_session :: string
  uuid_user_msg :: string
  uuid_assistant_msg :: string
  templates :: "string \<Rightarrow> Row list \<Rightarrow> string \<Rightarrow> string"
  ollama_generate :: "string \<Rightarrow> OllamaReply"
  ollama_format :: "string \<Rightarrow> string \<Rightarrow> Row list \<Rightarrow> OllamaReply"
  fallback_listing :: "Row list \<Rightarrow> string"

record Request =
  req_message :: "string option"
  req_sessionId :: "string option"

record Response =
  status :: nat
  body_sessionId :: "string option"
  body_message :: "string option"
  body_intent :: "string option"
  body_sql :: "string option"
  body_error :: "string option"
  body_details :: "string option"
  body_referencedReceipts :: "JsValue list option"
  body_resultCount :: "nat option"

definition emptyBody :: "nat \<Rightarrow> Response" where
  "emptyBody st =
     \<lparr> status = st, body_sessionId = None, body_message = None, body_intent = None,
       body_sql = None, body_error = None, body_details = None,
       body_referencedReceipts = None, body_resultCount = None \<rparr>"

text \<open>\<^verbatim>\<open>const { message, sessionId = uuidv4() } = body\<close>\<close>

definition sessionOf :: "Env \<Rightarrow> Request \<Rightarrow> string" where
  "sessionOf env req = (case req_sessionId req of None \<Rightarrow> uuid_session env | Some s \<Rightarrow> s)"

text \<open>The two calls of \<^verbatim>\<open>statements.insertChatMessage.run\<close> at the end of a request.\<close>

definition saveChat ::
  "Env \<Rightarrow> string \<Rightarrow> string \<Rightarrow> string \<Rightarrow> JsValue list \<Rightarrow> World \<Rightarrow> World" where
  "saveChat env sessionId message response referencedReceipts w =
     w\<lparr> chat_history := chat_history w @
          [\<lparr> msg_id = ''msg_'' @ take 8 (uuid_user_msg env), session_id = sessionId,
             role = ''user'', content = message, referenced_receipts = None \<rparr>,
           \<lparr> msg_id = ''msg_'' @ take 8 (uuid_assistant_msg env), session_id = sessionId,
             role = ''assistant'', content = response,
             referenced_receipts = Some referencedReceipts \<rparr>] \<rparr>"

subsection \<open>POST of the rule-based route\<close>

text \<open>
  \<^verbatim>\<open>
  const referencedReceipts = results
    .filter((r: any) => r.id)
    .map((r: any) => r.id)
    .slice(0, 20);
  \<close>
\<close>

definition chat_referencedReceipts :: "Row list \<Rightarrow> JsValue list" where
  "chat_referencedReceipts results =
     take 20 (map (\<lambda>r. getProp r ''id'') (filter (\<lambda>r. truthy (getProp r ''id'')) results))"

text \<open>
  A missing message is answered with status 400. An exception of the store is caught by
  the handler and answered with status 500; nothing is saved then.
\<close>

definition chat_POST :: "Env \<Rightarrow> World \<Rightarrow> Request \<Rightarrow> World \<times> Response" where
  "chat_POST env w req =
     (case req_message req of
        None \<Rightarrow> (w, (emptyBody 400)\<lparr> body_error := Some ''Message is required'' \<rparr>)
      | Some message \<Rightarrow>
          if message = [] then (w, (emptyBody 400)\<lparr> body_error := Some ''Message is required'' \<rparr>)
          else
            let sessionId = sessionOf env req;
                q = parseQuery message;
                w1 = w\<lparr> executed := executed w @ [(sql q, params q)] \<rparr>
            in case db_all env (sql q) (params q) of
                 Inl err \<Rightarrow>
                   (w1, (emptyBody 500)\<lparr> body_error := Some ''Failed to process chat'',
                                          body_details := Some err \<rparr>)
               | Inr results \<Rightarrow>
                   let response = generateResponse (templates env) (intent q) results message;
                       referencedReceipts = chat_referencedReceipts results
                   in (saveChat env sessionId message response referencedReceipts w1,
                       (emptyBody 200)\<lparr> body_sessionId := Some sessionId,
                                         body_message := Some response,
                                         body_intent := Some (intent q),
                                         body_referencedReceipts := Some referencedReceipts,
                                         body_resultCount := Some (length results) \<rparr>))"

section \<open>The text-to-SQL route\<close>

subsection \<open>generateSQL\<close>

text \<open>
  \<^verbatim>\<open>
  let sql = data.response?.trim() || '';
  sql = sql.replace(/```sql/gi, '').replace(/```/g, '').trim();
  if (!sql.toLowerCase().startsWith('select')) return null;
  return sql;
  \<close>
  A failed request, a response that is not ok and an exception all give \<^verbatim>\<open>null\<close>.
\<close>

definition cleanSql :: "string option \<Rightarrow> string" where
  "cleanSql response =
     (let sql0 = (case response of None \<Rightarrow> [] | Some t \<Rightarrow> trim t)
      in trim (removeAllBy id ''```'' (removeAllBy toLowerCase ''```sql'' sql0)))"

definition generateSQL :: "Env \<Rightarrow> string \<Rightarrow> string option" where
  "generateSQL env question =
     (case ollama_generate env question of
        FetchFailed \<Rightarrow> None
      | NotOk \<Rightarrow> None
      | Replied response \<Rightarrow>
          let sql' = cleanSql response
          in if \<not> startsWith (toLowerCase sql') ''select'' then None else Some sql')"

subsection \<open>formatAnswer and formatFallback\<close>

text \<open>
  \<^verbatim>\<open>formatFallback\<close> answers an empty result with a fixed sentence; its listing of a
  non-empty result is the parameter \<open>fallback_listing\<close>.
\<close>

definition formatFallback :: "Env \<Rightarrow> Row list \<Rightarrow> string" where
  "formatFallback env results =
     (if length results = 0 then ''No results found.'' else fallback_listing env results)"

text \<open>\<^verbatim>\<open>return data.response?.trim() || 'Unable to format response.'\<close>, and the fallback
  when the request fails.\<close>

definition formatAnswer :: "Env \<Rightarrow> string \<Rightarrow> string \<Rightarrow> Row list \<Rightarrow> string" where
  "formatAnswer env question sql' results =
     (case ollama_format env question sql' results of
        FetchFailed \<Rightarrow> formatFallback env results
      | NotOk \<Rightarrow> formatFallback env results
      | Replied response \<Rightarrow>
          (case response of
             None \<Rightarrow> ''Unable to format response.''
           | Some t \<Rightarrow> if trim t \<noteq> [] then trim t else ''Unable to format response.''))"

subsection \<open>POST of the text-to-SQL route\<close>

text \<open>
  \<^verbatim>\<open>
  const referencedReceipts = results
    .filter((r: any) => r.id && r.id.startsWith('cord_'))
    .map((r: any) => r.id)
    .slice(0, 20);
  \<close>
  A truthy \<^verbatim>\<open>id\<close> that is a number has no \<^verbatim>\<open>startsWith\<close>: the filter throws a
  TypeError, here \<open>None\<close>.
\<close>

definition keepsCordId :: "Row \<Rightarrow> bool option" where
  "keepsCordId r =
     (case getProp r ''id'' of
        Str s \<Rightarrow> Some (s \<noteq> [] \<and> startsWith s ''cord_'')
      | Num n \<Rightarrow> if n \<noteq> 0 then None else Some False
      | _ \<Rightarrow> Some False)"

definition sql_referencedReceipts :: "Row list \<Rightarrow> JsValue list option" where
  "sql_referencedReceipts results =
     (if list_ex (\<lambda>r. keepsCordId r = None) results then None
      else Some (take 20 (map (\<lambda>r. getProp r ''id'')
                   (filter (\<lambda>r. keepsCordId r = Some True) results))))"

definition sql_POST :: "Env \<Rightarrow> World \<Rightarrow> Request \<Rightarrow> World \<times> Response" where
  "sql_POST env w req =
     (case req_message req of
        None \<Rightarrow> (w, (emptyBody 400)\<lparr> body_error := Some ''Message is required'' \<rparr>)
      | Some message \<Rightarrow>
          if message = [] then (w, (emptyBody 400)\<lparr> body_error := Some ''Message is required'' \<rparr>)
          else
            let sessionId = sessionOf env req
            in case generateSQL env message of
                 None \<Rightarrow>
                   (w, (emptyBody 200)\<lparr>
                         body_sessionId := Some sessionId,
                         body_message := Some (''I couldn't understand that question. '' @
                           ''Try asking about spending totals, flagged receipts, or payment methods.''),
                         body_sql := None,
                         body_error := Some ''Could not generate SQL - is Ollama running?'' \<rparr>)
               | Some sql' \<Rightarrow>
                   let w1 = w\<lparr> executed := executed w @ [(sql', [])] \<rparr>
                   in case db_all env sql' [] of
                        Inl sqlError \<Rightarrow>
                          (w1, (emptyBody 400)\<lparr>
                                 body_sessionId := Some sessionId,
                                 body_message := Some (''SQL error: '' @ sqlError),
                                 body_sql := Some sql',
                                 body_error := Some ''SQL execution failed'' \<rparr>)
                      | Inr results \<Rightarrow>
                          let answer = formatAnswer env message sql' results
                          in case sql_referencedReceipts results of
                               None \<Rightarrow>
                                 (w1, (emptyBody 500)\<lparr>
                                        body_error := Some ''Failed to process'',
                                        body_details :=
                                          Some ''TypeError: r.id.startsWith is not a function'' \<rparr>)
                             | Some referencedReceipts \<Rightarrow>
                                 (saveChat env sessionId message answer referencedReceipts w1,
                                  (emptyBody 200)\<lparr>
                                    body_sessionId := Some sessionId,
                                    body_message := Some answer,
                                    body_sql := Some sql',
                                    body_referencedReceipts := Some referencedReceipts,
                                    body_resultCount := Some (length results) \<rparr>))"

section \<open>Reference notions and sample inputs\<close>

text \<open>The base-10 integer that a string of digits denotes, as a positional sum.\<close>

definition spec_base10 :: "string \<Rightarrow> nat" where
  "spec_base10 ds = (\<Sum>i<length ds. digitValue (ds ! i) * 10 ^ (length ds - 1 - i))"




text \<open>A receipt with the given subtotal, total amount and top-level item prices, all
  finite.\<close>

definition exampleResult ::
  "rat option \<Rightarrow> rat option \<Rightarrow> rat list \<Rightarrow> ExtractionResult" where
  "exampleResult st ta prices =
     \<lparr> success = True, confidence = Fin 1, errors = None,
       data = \<lparr> vendor = None,
                receipt = \<lparr> date = None, time = None, subtotal = map_option Fin st,
                            taxAmount = None, serviceCharge = None, discount = None,
                            totalAmount = map_option Fin ta,
                            paymentMethod = other, cashPaid = None, cardPaid = None,
                            changeAmount = None, itemTypeCount = None,
                            totalItemCount = None \<rparr>,
                items = map (\<lambda>p. LineItem ''Item'' (Fin 1) None (Fin p) None) prices \<rparr>,
       rawOcrText = None, processingTimeMs = None, modelUsed = None \<rparr>"

text \<open>An identifier that the text-to-SQL route keeps: a string that begins with "cord_".\<close>

definition isCordId :: "JsValue \<Rightarrow> bool" where
  "isCordId v = (case v of Str s \<Rightarrow> startsWith s ''cord_'' | _ \<Rightarrow> False)"

text \<open>
  Sample surroundings of a request: a store that answers every statement with the given
  rows, a model endpoint that answers the query prompt with the given reply and fails on the
  formatting prompt, fixed identifiers, and placeholders for the formatting code that is not
  modelled.
\<close>

definition exampleEnv :: "OllamaReply \<Rightarrow> Row list \<Rightarrow> Env" where
  "exampleEnv reply rows =
     \<lparr> db_all = (\<lambda>statement ps. Inr rows),
       uuid_session = ''1b4e28ba-2fa1-41d2-883f-0016d3cca427'',
       uuid_user_msg = ''6fa459ea-ee8a-4ca4-894e-db77e160355e'',
       uuid_assistant_msg = ''16fd2706-8baf-433b-82eb-8c7fada847da'',
       templates = (\<lambda>i rs q. ''(listing)''),
       ollama_generate = (\<lambda>question. reply),
       ollama_format = (\<lambda>question statement rs. FetchFailed),
       fallback_listing = (\<lambda>rs. ''(listing)'') \<rparr>"

definition emptyWorld :: World where
  "emptyWorld = \<lparr> chat_history = [], executed = [] \<rparr>"

definition exampleRequest :: "string \<Rightarrow> Request" where
  "exampleRequest m = \<lparr> req_message = Some m, req_sessionId = Some ''session-1'' \<rparr>"

text \<open>Three result rows: a CORD receipt, a receipt created by upload, and an aggregate.\<close>

definition exampleRows :: "Row list" where
  "exampleRows =
     [[(''id'', Str ''cord_0007''), (''total_amount'', Num (Fin 61000))],
      [(''id'', Str ''7c9e6679-7425-40de-944b-e07fc1f90ae7''),
       (''total_amount'', Num (Fin 52000))],
      [(''count'', Num (Fin 2))]]"

section \<open>Properties of the rounding to doubles\<close>

lemma bitlen_bounds: "0 < n \<Longrightarrow> 2 ^ (bitlen n - 1) \<le> n \<and> n < 2 ^ bitlen n"
proof (induction n rule: bitlen.induct)
  case (1 n)
  show ?case
  proof (cases "n div 2 \<le> 0")
    case True
    with "1.prems" have "n = 1" by linarith
    then show ?thesis by (simp add: bitlen.simps)
  next
    case False
    then have pos: "0 < n div 2" by simp
    from "1.prems" have nz: "\<not> n \<le> 0" by simp
    from "1.IH" [OF nz pos]
    have lo: "2 ^ (bitlen (n div 2) - 1) \<le> n div 2" and hi: "n div 2 < 2 ^ bitlen (n div 2)"
      by simp_all
    have k: "bitlen (n div 2) \<noteq> 0"
      using pos by (subst bitlen.simps) simp
    have b: "bitlen n = Suc (bitlen (n div 2))"
      using nz by (subst bitlen.simps) simp
    have "(2::int) ^ bitlen (n div 2) = 2 * 2 ^ (bitlen (n div 2) - 1)"
      using k by (cases "bitlen (n div 2)") simp_all
    with lo have "2 ^ bitlen (n div 2) \<le> 2 * (n div 2)" by simp
    also have "\<dots> \<le> n" by simp
    finally have l: "2 ^ (bitlen n - 1) \<le> n" by (simp add: b)
    from hi have "n div 2 + 1 \<le> 2 ^ bitlen (n div 2)" by simp
    then have "2 * (n div 2) + 2 \<le> 2 * 2 ^ bitlen (n div 2)" by simp
    moreover have "n < 2 * (n div 2) + 2" by linarith
    ultimately have "n < 2 ^ bitlen n" by (simp add: b)
    with l show ?thesis ..
  qed
qed

lemma roundHalfEven_of_int: "roundHalfEven (of_int j) = j"
  by (simp add: roundHalfEven_def)

lemma roundDouble_pos:
  assumes "0 < x" and "ilog2 x = e" and "- 1022 \<le> e"
    and "roundHalfEven (x / pow2 (e - 52)) = m"
    and "of_int m * pow2 (e - 52) = v" and "v < pow2 1024"
  shows "roundDouble x = Fin v"
proof -
  have a: "\<bar>x\<bar> = x" using assms(1) by simp
  have e: "max (ilog2 x) (- 1022) = e" using assms(2,3) by simp
  have v: "\<not> pow2 1024 \<le> v" using assms(6) by simp
  show ?thesis
    unfolding roundDouble_def Let_def a e assms(4) assms(5)
    using assms(1) v by simp
qed

lemma roundDouble_minus:
  "roundDouble (- x) =
     (case roundDouble x of Fin v \<Rightarrow> Fin (- v) | Infinity \<Rightarrow> NegInfinity
      | NegInfinity \<Rightarrow> Infinity)"
  by (cases "x = 0"; cases "0 < x") (auto simp: roundDouble_def Let_def)

lemma pow2_1024_big: "2 ^ 53 < pow2 1024"
proof -
  have "(2::rat) ^ 53 < 2 ^ 1024" by (rule power_strict_increasing) simp_all
  then show ?thesis by (simp add: pow2_def)
qed

lemma roundDouble_of_int_pos:
  assumes "0 < n" and "n \<le> 2 ^ 53"
  shows "roundDouble (of_int n) = Fin (of_int n)"
proof -
  define e where "e = int (bitlen n) - 1"
  from bitlen_bounds [OF assms(1)]
  have lo: "2 ^ (bitlen n - 1) \<le> n" and hi: "n < 2 ^ bitlen n" by simp_all
  have kpos: "bitlen n \<noteq> 0" using assms(1) by (subst bitlen.simps) simp
  have e0: "0 \<le> e" using kpos by (simp add: e_def)
  have p: "(2::int) ^ (bitlen n - 1) \<le> 2 ^ 53" using lo assms(2) by (rule order_trans)
  have "bitlen n - 1 \<le> 53" by (rule power_le_imp_le_exp [OF _ p]) simp
  then have e53: "e \<le> 53" using kpos by (simp add: e_def)
  have x: "(0::rat) < of_int n" using assms(1) by simp
  have x1: "(1::rat) \<le> of_int n" using assms(1) by simp
  have il: "ilog2 (of_int n) = e" using x1 by (simp add: ilog2_def e_def)
  have le: "- 1022 \<le> e" using e0 by simp
  have small: "(of_int n :: rat) < pow2 1024"
  proof -
    have "(of_int n :: rat) \<le> 2 ^ 53" using assms(2) by (metis of_int_le_iff of_int_numeral of_int_power)
    with pow2_1024_big show ?thesis by simp
  qed
  show ?thesis
  proof (cases "e \<le> 52")
    case True
    define j where "j = n * 2 ^ nat (52 - e)"
    have ulp: "pow2 (e - 52) = 1 / 2 ^ nat (52 - e)"
      using True by (cases "e = 52") (simp_all add: pow2_def)
    have q: "of_int n / pow2 (e - 52) = (of_int j :: rat)"
      by (simp add: ulp j_def)
    have m: "roundHalfEven (of_int n / pow2 (e - 52)) = j"
      unfolding q by (rule roundHalfEven_of_int)
    have v: "of_int j * pow2 (e - 52) = (of_int n :: rat)"
      by (simp add: ulp j_def)
    from roundDouble_pos [OF x il le m v small] show ?thesis .
  next
    case False
    with e53 have e: "e = 53" by simp
    then have "bitlen n = 54" by (simp add: e_def)
    with lo have "2 ^ 53 \<le> n" by simp
    with assms(2) have n: "n = 2 ^ 53" by simp
    have ulp: "pow2 (e - 52) = 2" by (simp add: e pow2_def)
    have q: "of_int n / pow2 (e - 52) = (of_int (2 ^ 52) :: rat)"
      by (simp add: ulp n)
    have m: "roundHalfEven (of_int n / pow2 (e - 52)) = 2 ^ 52"
      unfolding q by (rule roundHalfEven_of_int)
    have v: "of_int (2 ^ 52) * pow2 (e - 52) = (of_int n :: rat)"
      by (simp add: ulp n)
    from roundDouble_pos [OF x il le m v small] show ?thesis .
  qed
qed

lemma roundDouble_of_int:
  assumes "\<bar>n\<bar> \<le> 2 ^ 53"
  shows "roundDouble (of_int n) = Fin (of_int n)"
proof (cases "0 < n")
  case True
  with assms show ?thesis by (simp add: roundDouble_of_int_pos)
next
  case False
  show ?thesis
  proof (cases "n = 0")
    case True
    then show ?thesis by (simp add: roundDouble_def)
  next
    case False
    with \<open>\<not> 0 < n\<close> have "0 < - n" by simp
    moreover from assms have "- n \<le> 2 ^ 53" by simp
    ultimately have "roundDouble (of_int (- n)) = Fin (of_int (- n))"
      by (rule roundDouble_of_int_pos)
    then have "roundDouble (- of_int n) = Fin (- of_int n)" by simp
    then show ?thesis
      by (simp add: roundDouble_minus split: number.splits)
  qed
qed

lemma roundDouble_numeral:
  "numeral k \<le> (2::int) ^ 53 \<Longrightarrow> roundDouble (numeral k) = Fin (numeral k)"
  using roundDouble_of_int [of "numeral k"] by simp

lemma roundDouble_neg_numeral:
  "numeral k \<le> (2::int) ^ 53 \<Longrightarrow> roundDouble (- numeral k) = Fin (- numeral k)"
  using roundDouble_of_int [of "- numeral k"] by simp

lemma floor_rat_numeral_div:
  "\<lfloor>numeral a / numeral b :: rat\<rfloor> = numeral a div numeral b"
  using floor_divide_of_int_eq [of "numeral a" "numeral b", where ?'a = rat] by simp

lemma floor_rat_one_div:
  "\<lfloor>1 / numeral b :: rat\<rfloor> = 1 div numeral b"
  using floor_divide_of_int_eq [of 1 "numeral b", where ?'a = rat] by simp

lemma ceiling_rat_numeral_div:
  "\<lceil>numeral a / numeral b :: rat\<rceil> = - (- numeral a div numeral b)"
  using floor_divide_of_int_eq [of "- numeral a" "numeral b", where ?'a = rat]
  by (simp add: ceiling_def)

lemmas double_eval = ilog2_def pow2_def roundHalfEven_def Let_def bitlen.simps
  floor_rat_numeral_div floor_rat_one_div ceiling_rat_numeral_div


lemma double_005: "roundDouble (1 / 20) = Fin (3602879701896397 / 72057594037927936)"
  by (rule roundDouble_pos [where e = "- 5" and m = 7205759403792794])
     (simp_all add: double_eval)

lemma double_two_pow_53_plus_1: "roundDouble 9007199254740993 = Fin 9007199254740992"
  by (rule roundDouble_pos [where e = 53 and m = "2 ^ 52"]) (simp_all add: double_eval)

lemma tolerance_of_100:
  "mulNum (Some (Fin 100)) (Some (roundDouble (1 / 20))) = Some (Fin 5)"
proof -
  have "roundDouble (100 * (3602879701896397 / 72057594037927936)) = Fin 5"
    by (rule roundDouble_pos [where e = 2 and m = "5 * 2 ^ 50"]) (simp_all add: double_eval)
  then show ?thesis
    by (simp only: mulNum_def double_005 prod.case option.case mulDouble.simps)
qed


lemma addNum_Fin: "addNum (Some (Fin a)) (Some (Fin b)) = Some (roundDouble (a + b))"
  by (simp add: addNum_def)

lemma subNum_Fin: "subNum (Some (Fin a)) (Some (Fin b)) = Some (roundDouble (a - b))"
  by (simp add: subNum_def subDouble_def)

lemma absNum_Fin: "absNum (Some (Fin a)) = Some (Fin \<bar>a\<bar>)"
  by (simp add: absNum_def)

lemma gtNum_Fin: "gtNum (Some (Fin a)) (Some (Fin b)) \<longleftrightarrow> b < a"
  by (simp add: gtNum_def)

lemma roundDouble_0: "roundDouble 0 = Fin 0"
  by (simp add: roundDouble_def)

lemmas double_ops = addNum_Fin subNum_Fin absNum_Fin gtNum_Fin roundDouble_0
  roundDouble_numeral roundDouble_neg_numeral zero_number_def

section \<open>Properties of the amount parser, the validator and the assembler\<close>

lemma spec_base10_Cons:
  "spec_base10 (c # ds) = digitValue c * 10 ^ length ds + spec_base10 ds"
proof -
  have "(\<Sum>i<Suc (length ds). digitValue ((c # ds) ! i) * 10 ^ (Suc (length ds) - 1 - i)) =
        digitValue ((c # ds) ! 0) * 10 ^ (Suc (length ds) - 1 - 0) +
        (\<Sum>i<length ds. digitValue ((c # ds) ! Suc i) * 10 ^ (Suc (length ds) - 1 - Suc i))"
    by (rule sum.lessThan_Suc_shift)
  then show ?thesis by (simp add: spec_base10_def)
qed

lemma foldl_digits:
  "foldl (\<lambda>n c. 10 * n + digitValue c) a ds = a * 10 ^ length ds + spec_base10 ds"
proof (induction ds arbitrary: a)
  case Nil show ?case by (simp add: spec_base10_def)
next
  case (Cons c ds)
  have "foldl (\<lambda>n c. 10 * n + digitValue c) a (c # ds) =
        foldl (\<lambda>n c. 10 * n + digitValue c) (10 * a + digitValue c) ds"
    by simp
  also have "\<dots> = (10 * a + digitValue c) * 10 ^ length ds + spec_base10 ds"
    by (rule Cons.IH)
  also have "\<dots> = a * 10 ^ length (c # ds) + spec_base10 (c # ds)"
    by (simp add: spec_base10_Cons algebra_simps)
  finally show ?case .
qed

lemma parseDigits_base10: "parseDigits ds = spec_base10 ds"
  by (simp add: parseDigits_def foldl_digits)

lemma takeWhile_filter_same: "takeWhile P (filter P xs) = filter P xs"
  by (induction xs) auto

lemma parseInt_digits:
  "filter isDigit s \<noteq> [] \<Longrightarrow>
   parseInt (filter isDigit s) =
     Some (roundDouble (of_nat (spec_base10 (filter isDigit s))))"
  by (simp add: parseInt_def takeWhile_filter_same parseDigits_base10)

lemma parseCordPrice_Some:
  "parseCordPrice (Some s) =
     (if filter isDigit s = [] then None
      else Some (roundDouble (of_nat (spec_base10 (filter isDigit s)))))"
  by (cases "s = []") (simp_all add: parseCordPrice_def Let_def parseInt_digits)

lemma roundDouble_of_nat:
  "n \<le> 2 ^ 53 \<Longrightarrow> roundDouble (of_nat n) = Fin (of_nat n)"
proof -
  assume "n \<le> 2 ^ 53"
  then have "int n \<le> 2 ^ 53" by (metis of_nat_le_iff of_nat_numeral of_nat_power)
  then have "roundDouble (of_int (int n)) = Fin (of_int (int n))"
    by (intro roundDouble_of_int) simp
  then show ?thesis by simp
qed

text \<open>
  The digits of "9007199254740993" denote 2^53 + 1, and \<open>parseCordPrice\<close> gives 2^53.
\<close>

theorem parseCordPrice_counterexample:
  "spec_base10 (filter isDigit ''9007199254740993'') = 9007199254740993 \<and>
   parseCordPrice (Some ''9007199254740993'') = Some (Fin 9007199254740992)"
proof -
  have digits: "filter isDigit ''9007199254740993'' = ''9007199254740993''"
    by (simp add: isDigit_def)
  have "parseDigits ''9007199254740993'' = 9007199254740993"
    by (simp add: parseDigits_def digitValue_def)
  then have val: "spec_base10 ''9007199254740993'' = 9007199254740993"
    by (simp add: parseDigits_base10)
  have "parseCordPrice (Some ''9007199254740993'') =
      Some (roundDouble (of_nat 9007199254740993))"
    unfolding parseCordPrice_Some digits val by simp
  with digits val show ?thesis by (simp add: double_two_pow_53_plus_1)
qed

text \<open>
  C2, as amended. \<open>parseCordPrice\<close> keeps exactly the ASCII digits of its input and reads
  them as a base-10 integer, which it returns as a double: the integer itself when it is at
  most 2^53, and otherwise the double nearest to it. An absent input, an empty input and an
  input without digits give an absent result, not zero. In particular "16,500" gives 16500
  and "" gives absent.
\<close>

theorem parseCordPrice_strips_and_parses:
  "parseCordPrice None = None \<and>
   parseCordPrice (Some s) =
     (if filter isDigit s = [] then None
      else Some (roundDouble (of_nat (spec_base10 (filter isDigit s))))) \<and>
   (spec_base10 (filter isDigit s) \<le> 2 ^ 53 \<longrightarrow>
      roundDouble (of_nat (spec_base10 (filter isDigit s))) =
        Fin (of_nat (spec_base10 (filter isDigit s)))) \<and>
   parseCordPrice (Some ''16,500'') = Some (Fin 16500) \<and>
   parseCordPrice (Some '''') = None"
proof -
  have a: "parseCordPrice None = None" by (simp add: parseCordPrice_def)
  have "parseDigits ''16500'' = 16500"
    by (simp add: parseDigits_def digitValue_def)
  then have "spec_base10 ''16500'' = 16500" by (simp add: parseDigits_base10)
  moreover have "filter isDigit ''16,500'' = ''16500''" by (simp add: isDigit_def)
  ultimately have c: "parseCordPrice (Some ''16,500'') = Some (Fin 16500)"
    unfolding parseCordPrice_Some by (simp add: roundDouble_numeral)
  have d: "parseCordPrice (Some '''') = None" by (simp add: parseCordPrice_def)
  from a parseCordPrice_Some [of s] c d show ?thesis
    by (simp add: roundDouble_of_nat)
qed

theorem parseCordPrice_strips_and_parses_witness:
  "parseCordPrice (Some ''Rp 1.250.000,-'') = Some (Fin 1250000)"
proof -
  have digits: "filter isDigit ''Rp 1.250.000,-'' = ''1250000''"
    by (simp add: isDigit_def)
  have "parseDigits ''1250000'' = 1250000"
    by (simp add: parseDigits_def digitValue_def)
  then have val: "spec_base10 ''1250000'' = 1250000" by (simp add: parseDigits_base10)
  from parseCordPrice_strips_and_parses [of "''Rp 1.250.000,-''"]
  show ?thesis unfolding digits val by simp
qed

lemma exampleResult_simps:
  "subtotal (receipt (data (exampleResult st ta prices))) = map_option Fin st"
  "totalAmount (receipt (data (exampleResult st ta prices))) = map_option Fin ta"
  "items (data (exampleResult st ta prices)) =
     map (\<lambda>p. LineItem ''Item'' (Fin 1) None (Fin p) None) prices"
  by (simp_all add: exampleResult_def)

lemma expectedSubtotal_cases:
  "expectedSubtotal result =
     (case subtotal (receipt (data result)) of
        None \<Rightarrow> totalAmount (receipt (data result))
      | Some s \<Rightarrow> if s \<noteq> 0 then Some s else totalAmount (receipt (data result)))"
  by (simp add: expectedSubtotal_def orNum_def truthyNum_def split: option.splits)


lemma mismatch_iff:
  "(\<exists>s e. ItemsSumMismatch s e \<in> set (validateExtractionResult result)) \<longleftrightarrow>
   gtNum (absNum (subNum (itemsSum result) (expectedSubtotal result)))
     (mulNum (expectedSubtotal result) (Some (roundDouble (1 / 20))))"
  by (auto simp: validateExtractionResult_def Let_def split: if_splits)


lemma validateExtractionResult_cong:
  assumes "totalAmount (receipt (data a)) = totalAmount (receipt (data b))"
    and "items (data a) = items (data b)"
    and "expectedSubtotal a = expectedSubtotal b"
  shows "validateExtractionResult a = validateExtractionResult b"
  unfolding validateExtractionResult_def itemsSum_def assms ..

lemma validate_eval:
  assumes "totalAmount (receipt (data result)) = Some t" and "t \<noteq> 0"
    and "items (data result) \<noteq> []"
    and "itemsSum result = Some (Fin s)" and "expectedSubtotal result = Some (Fin e)"
    and "mulNum (Some (Fin e)) (Some (roundDouble (1 / 20))) = Some (Fin tol)"
    and "roundDouble (s - e) = Fin d"
  shows "validateExtractionResult result =
     (if tol < \<bar>d\<bar> then [ItemsSumMismatch (Some (Fin s)) (Some (Fin e))] else [])"
  unfolding validateExtractionResult_def Let_def assms(1,4,5,6) subNum_Fin assms(7)
  using assms(2,3) by (simp add: truthyNum_def absNum_Fin gtNum_Fin)



text \<open>
  A receipt with total amount -5, subtotal 100 and one item of 100 is not positive in its
  total amount, and validation returns no error at all.
\<close>

theorem total_amount_required_counterexample:
  "totalAmount (receipt (data (exampleResult (Some 100) (Some (- 5)) [100]))) =
     Some (Fin (- 5)) \<and>
   validateExtractionResult (exampleResult (Some 100) (Some (- 5)) [100]) = []"
proof -
  have "validateExtractionResult (exampleResult (Some 100) (Some (- 5)) [100]) = []"
    by (subst validate_eval [where t = "Fin (- 5)" and s = 100 and e = 100 and tol = 5
          and d = 0])
       (simp_all add: exampleResult_simps itemsSum_def expectedSubtotal_cases tolerance_of_100
          double_ops)
  then show ?thesis by (simp add: exampleResult_simps)
qed

text \<open>
  C4, as amended. The validator reports the required-field error for the total amount if and
  only if the total amount is absent or zero, whatever the line items are. A negative total
  amount passes this check.
\<close>

theorem total_amount_required_iff:
  "TotalAmountRequired \<in> set (validateExtractionResult result) \<longleftrightarrow>
   (totalAmount (receipt (data result)) = None \<or> totalAmount (receipt (data result)) = Some 0)"
  by (auto simp: validateExtractionResult_def Let_def truthyNum_def
      split: if_splits option.splits)

text \<open>
  C10. A subtotal that is present and equal to 0 is treated as an absent one: the expected
  subtotal is the total amount, validation gives the same result as without the subtotal, and
  the tolerance check compares the items' sum with the total amount, with the total amount
  times 0.05 as tolerance (both computed in double arithmetic, as in the source).
\<close>

theorem zero_subtotal_falls_back:
  assumes "subtotal (receipt (data result)) = Some 0"
  shows "expectedSubtotal result = totalAmount (receipt (data result)) \<and>
         validateExtractionResult result =
           validateExtractionResult
             (result\<lparr>data := (data result)\<lparr>receipt := (receipt (data result))\<lparr>subtotal := None\<rparr>\<rparr>\<rparr>) \<and>
         ((\<exists>s e. ItemsSumMismatch s e \<in> set (validateExtractionResult result)) \<longleftrightarrow>
          gtNum (absNum (subNum (itemsSum result) (totalAmount (receipt (data result)))))
            (mulNum (totalAmount (receipt (data result))) (Some (roundDouble (1 / 20)))))"
proof -
  have a: "expectedSubtotal result = totalAmount (receipt (data result))"
    using assms by (simp add: expectedSubtotal_cases)
  have b: "validateExtractionResult result =
           validateExtractionResult
             (result\<lparr>data := (data result)\<lparr>receipt := (receipt (data result))\<lparr>subtotal := None\<rparr>\<rparr>\<rparr>)"
    using assms
    by (intro validateExtractionResult_cong)
       (simp_all add: expectedSubtotal_def orNum_def truthyNum_def)
  show ?thesis using a b mismatch_iff [of result] by simp
qed

theorem zero_subtotal_falls_back_witness:
  "expectedSubtotal (exampleResult (Some 0) (Some 100) [70, 20]) = Some (Fin 100) \<and>
   validateExtractionResult (exampleResult (Some 0) (Some 100) [70, 20]) =
     [ItemsSumMismatch (Some (Fin 90)) (Some (Fin 100))]"
proof -
  have h: "subtotal (receipt (data (exampleResult (Some 0) (Some 100) [70, 20]))) = Some 0"
    by (simp add: exampleResult_simps zero_number_def)
  have "validateExtractionResult
          ((exampleResult (Some 0) (Some 100) [70, 20])
             \<lparr>data := (data (exampleResult (Some 0) (Some 100) [70, 20]))
                \<lparr>receipt := (receipt (data (exampleResult (Some 0) (Some 100) [70, 20])))
                   \<lparr>subtotal := None\<rparr>\<rparr>\<rparr>) =
        [ItemsSumMismatch (Some (Fin 90)) (Some (Fin 100))]"
    by (subst validate_eval [where t = "Fin 100" and s = 90 and e = 100 and tol = 5
          and d = "- 10"])
       (simp_all add: exampleResult_def itemsSum_def expectedSubtotal_cases tolerance_of_100
          double_ops)
  with zero_subtotal_falls_back [OF h] show ?thesis
    by (simp add: exampleResult_simps)
qed

text \<open>
  C5. The payment method of an assembled CORD receipt is \<open>mixed\<close> when the cash amount and
  the card amount are both present and not zero, \<open>cash\<close> when only the cash amount is,
  \<open>card\<close> when only the card amount is, and \<open>other\<close> otherwise.
\<close>

theorem payment_method_inference:
  "paymentMethod (receipt (data (cordToExtractionResult gtParse))) =
     (let r = receipt (data (cordToExtractionResult gtParse));
          hasCash = (\<exists>a. cashPaid r = Some a \<and> a \<noteq> 0);
          hasCard = (\<exists>a. cardPaid r = Some a \<and> a \<noteq> 0)
      in if hasCash \<and> hasCard then mixed
         else if hasCash then cash
         else if hasCard then card
         else other) \<and>
   cashPaid (receipt (data (cordToExtractionResult gtParse))) =
     parseCordPrice (case total gtParse of None \<Rightarrow> None | Some t \<Rightarrow> cashprice t) \<and>
   cardPaid (receipt (data (cordToExtractionResult gtParse))) =
     parseCordPrice (case total gtParse of None \<Rightarrow> None | Some t \<Rightarrow> creditcardprice t)"
  by (auto simp: cordToExtractionResult_def cordPaymentMethod_def truthyNum_def chain_def Let_def
      split: option.splits)

section \<open>Properties of the rule-based route\<close>

lemma toLowerChar_idem: "toLowerChar (toLowerChar c) = toLowerChar c"
proof -
  have lower_fixed: "\<forall>l \<in> set lowerCaseUnits.
      map_of (zip upperCaseUnits lowerCaseUnits) l = None"
    by (simp add: upperCaseUnits_def lowerCaseUnits_def)
  have image_lower: "l \<in> set lowerCaseUnits"
    if "map_of (zip upperCaseUnits lowerCaseUnits) c = Some l"
    for l
    using that by (rule in_set_zipE [OF map_of_SomeD])
  from lower_fixed image_lower show ?thesis
    unfolding toLowerChar_def by (auto split: option.splits)
qed

lemma toLowerCase_idem: "toLowerCase (toLowerCase s) = toLowerCase s"
  by (simp add: toLowerCase_def toLowerChar_idem)

lemma testPattern_toLowerCase: "testPattern p (toLowerCase s) = testPattern p s"
  by (simp add: testPattern_def toLowerCase_idem)

lemma truthyNum_iff: "truthyNum x \<longleftrightarrow> (\<exists>t. x = Some t \<and> t \<noteq> 0)"
  by (cases x) (simp_all add: truthyNum_def)

lemma count_flagged_example:
  "testPattern QUERY_PATTERNS_count ''how many flagged receipts are there'' \<and>
   testPattern QUERY_PATTERNS_flagged ''how many flagged receipts are there''"
  by code_simp

lemma above_zero_flags:
  "testPattern QUERY_PATTERNS_high_value ''receipts above 0'' \<and>
   \<not> testPattern QUERY_PATTERNS_count ''receipts above 0'' \<and>
   \<not> testPattern QUERY_PATTERNS_total_spending ''receipts above 0'' \<and>
   \<not> testPattern QUERY_PATTERNS_flagged ''receipts above 0'' \<and>
   \<not> testPattern QUERY_PATTERNS_low_value ''receipts above 0'' \<and>
   \<not> testPattern QUERY_PATTERNS_payment_method ''receipts above 0'' \<and>
   \<not> testPattern QUERY_PATTERNS_tax ''receipts above 0'' \<and>
   \<not> testPattern QUERY_PATTERNS_audit ''receipts above 0''"
  by code_simp

lemma above_zero_threshold: "extractNumber ''receipts above 0'' = Some 0"
  by (simp add: extractNumber_def parseInt_def parseDigits_def isDigit_def digitValue_def
      roundDouble_0 zero_number_def)

text \<open>
  The question "receipts above 0" matches the high-value pattern and carries the threshold
  0, and it matches neither the count, the total-spending nor the flagged pattern; the
  intent is the default listing, not the high-value one.
\<close>

theorem intent_cascade_counterexample:
  "testPattern QUERY_PATTERNS_high_value ''receipts above 0'' \<and>
   extractNumber ''receipts above 0'' = Some 0 \<and>
   \<not> testPattern QUERY_PATTERNS_count ''receipts above 0'' \<and>
   \<not> testPattern QUERY_PATTERNS_total_spending ''receipts above 0'' \<and>
   \<not> testPattern QUERY_PATTERNS_flagged ''receipts above 0'' \<and>
   intent (parseQuery ''receipts above 0'') = ''list_receipts''"
proof -
  have "intent (parseQuery ''receipts above 0'') = ''list_receipts''"
    unfolding parseQuery_def Let_def testPattern_toLowerCase above_zero_threshold
    using above_zero_flags by (simp add: truthyNum_def)
  with above_zero_flags above_zero_threshold show ?thesis by simp
qed

text \<open>
  C3, as amended. The intent and the query of a question are fixed by a priority cascade
  over the pattern tests, first match winning: count and flagged, count, total spending
  without a high or low modifier, flagged, high value with a threshold that is not zero, low
  value with a threshold that is not zero, payment method (with the query chosen by the
  words "cash" and "card"), tax, audit, and the default listing otherwise. The question
  "how many flagged receipts are there" has the intent \<open>count_flagged\<close>.
\<close>

theorem intent_cascade:
  "(intent (parseQuery query), sql (parseQuery query)) =
     (let isCount = testPattern QUERY_PATTERNS_count query;
          isFlagged = testPattern QUERY_PATTERNS_flagged query;
          isTotal = testPattern QUERY_PATTERNS_total_spending query;
          isHigh = testPattern QUERY_PATTERNS_high_value query;
          isLow = testPattern QUERY_PATTERNS_low_value query;
          isPayment = testPattern QUERY_PATTERNS_payment_method query;
          isTax = testPattern QUERY_PATTERNS_tax query;
          isAudit = testPattern QUERY_PATTERNS_audit query;
          hasThreshold = (\<exists>t. extractNumber query = Some t \<and> t \<noteq> 0)
      in if isCount \<and> isFlagged then (''count_flagged'', sql_count_flagged)
         else if isCount then (''count_all'', sql_count_all)
         else if isTotal \<and> \<not> isHigh \<and> \<not> isLow then (''total_spending'', sql_total_spending)
         else if isFlagged then (''flagged_receipts'', sql_flagged_receipts)
         else if isHigh \<and> hasThreshold then (''high_value_receipts'', sql_high_value_receipts)
         else if isLow \<and> hasThreshold then (''low_value_receipts'', sql_low_value_receipts)
         else if isPayment then
           (''payment_breakdown'',
            if includesStr (toLowerCase query) ''cash'' then sql_payment_cash
            else if includesStr (toLowerCase query) ''card'' then sql_payment_card
            else sql_payment_breakdown)
         else if isTax then (''tax_info'', sql_tax_info)
         else if isAudit then (''audit_findings'', sql_audit_findings)
         else (''list_receipts'', sql_list_receipts)) \<and>
   intent (parseQuery ''how many flagged receipts are there'') = ''count_flagged''"
proof -
  have example: "intent (parseQuery ''how many flagged receipts are there'') = ''count_flagged''"
    unfolding parseQuery_def Let_def testPattern_toLowerCase
    using count_flagged_example by simp
  have threshold: "(\<exists>t. extractNumber query = Some t \<and> t \<noteq> 0) =
      truthyNum (extractNumber query)"
    by (simp add: truthyNum_iff)
  have cascade: "(intent (parseQuery query), sql (parseQuery query)) =
     (let isCount = testPattern QUERY_PATTERNS_count query;
          isFlagged = testPattern QUERY_PATTERNS_flagged query;
          isTotal = testPattern QUERY_PATTERNS_total_spending query;
          isHigh = testPattern QUERY_PATTERNS_high_value query;
          isLow = testPattern QUERY_PATTERNS_low_value query;
          isPayment = testPattern QUERY_PATTERNS_payment_method query;
          isTax = testPattern QUERY_PATTERNS_tax query;
          isAudit = testPattern QUERY_PATTERNS_audit query;
          hasThreshold = (\<exists>t. extractNumber query = Some t \<and> t \<noteq> 0)
      in if isCount \<and> isFlagged then (''count_flagged'', sql_count_flagged)
         else if isCount then (''count_all'', sql_count_all)
         else if isTotal \<and> \<not> isHigh \<and> \<not> isLow then (''total_spending'', sql_total_spending)
         else if isFlagged then (''flagged_receipts'', sql_flagged_receipts)
         else if isHigh \<and> hasThreshold then (''high_value_receipts'', sql_high_value_receipts)
         else if isLow \<and> hasThreshold then (''low_value_receipts'', sql_low_value_receipts)
         else if isPayment then
           (''payment_breakdown'',
            if includesStr (toLowerCase query) ''cash'' then sql_payment_cash
            else if includesStr (toLowerCase query) ''card'' then sql_payment_card
            else sql_payment_breakdown)
         else if isTax then (''tax_info'', sql_tax_info)
         else if isAudit then (''audit_findings'', sql_audit_findings)
         else (''list_receipts'', sql_list_receipts))"
    unfolding threshold parseQuery_def Let_def testPattern_toLowerCase
    by simp
  from cascade example show ?thesis ..
qed

lemma show_above_flags:
  "testPattern QUERY_PATTERNS_high_value ''Show receipts above 50000'' \<and>
   \<not> testPattern QUERY_PATTERNS_count ''Show receipts above 50000'' \<and>
   \<not> testPattern QUERY_PATTERNS_total_spending ''Show receipts above 50000'' \<and>
   \<not> testPattern QUERY_PATTERNS_flagged ''Show receipts above 50000''"
  by code_simp

lemma show_above_threshold:
  "extractNumber ''Show receipts above 50000'' = Some (Fin 50000)"
  by (simp add: extractNumber_def parseInt_def parseDigits_def isDigit_def digitValue_def
      roundDouble_numeral)

lemma high_value_template:
  "includesStr sql_high_value_receipts ''WHERE r.total_amount > ?'' \<and>
   includesStr sql_high_value_receipts ''ORDER BY r.total_amount DESC'' \<and>
   includesStr sql_high_value_receipts ''LIMIT 20'' \<and>
   \<not> includesStr sql_high_value_receipts ''50000''"
  by code_simp

text \<open>
  C7. For the question "Show receipts above 50000" the threshold is 50000, the intent is the
  high-value one (the label \<open>high_value_receipts\<close>), the query is the high-value template,
  which filters on \<open>r.total_amount > ?\<close>, orders by the total amount descending and ends
  with \<open>LIMIT 20\<close>, and the threshold is the one bound parameter; its digits do not occur
  in the query text.
\<close>

theorem show_receipts_above_50000:
  "extractNumber ''Show receipts above 50000'' = Some (Fin 50000) \<and>
   parseQuery ''Show receipts above 50000'' =
     \<lparr> sql = sql_high_value_receipts, params = [Fin 50000],
       intent = ''high_value_receipts'' \<rparr> \<and>
   includesStr sql_high_value_receipts ''WHERE r.total_amount > ?'' \<and>
   includesStr sql_high_value_receipts ''ORDER BY r.total_amount DESC'' \<and>
   includesStr sql_high_value_receipts ''LIMIT 20'' \<and>
   \<not> includesStr sql_high_value_receipts ''50000''"
proof -
  have "parseQuery ''Show receipts above 50000'' =
     \<lparr> sql = sql_high_value_receipts, params = [Fin 50000],
       intent = ''high_value_receipts'' \<rparr>"
    unfolding parseQuery_def Let_def testPattern_toLowerCase show_above_threshold
    using show_above_flags by (simp add: truthyNum_def zero_number_def)
  with show_above_threshold high_value_template show ?thesis by simp
qed

section \<open>Properties of the two POST handlers\<close>

lemma exampleEnv_simps:
  "db_all (exampleEnv reply rows) statement ps = Inr rows"
  "ollama_generate (exampleEnv reply rows) question = reply"
  "ollama_format (exampleEnv reply rows) question statement rs = FetchFailed"
  "templates (exampleEnv reply rows) = (\<lambda>i rs q. ''(listing)'')"
  "fallback_listing (exampleEnv reply rows) = (\<lambda>rs. ''(listing)'')"
  by (simp_all add: exampleEnv_def)

lemma exampleRequest_simps:
  "req_message (exampleRequest m) = Some m"
  "req_sessionId (exampleRequest m) = Some ''session-1''"
  "sessionOf env (exampleRequest m) = ''session-1''"
  by (simp_all add: exampleRequest_def sessionOf_def)

lemma generateSQL_Replied:
  "ollama_generate env question = Replied response \<Longrightarrow>
   generateSQL env question =
     (if startsWith (toLowerCase (cleanSql response)) ''select''
      then Some (cleanSql response) else None)"
  by (simp add: generateSQL_def Let_def)

lemma sql_POST_rejected:
  assumes "req_message req = Some message" and "message \<noteq> []"
    and "generateSQL env message = None"
  shows "sql_POST env w req =
     (w, \<lparr> status = 200, body_sessionId = Some (sessionOf env req),
           body_message = Some (''I couldn't understand that question. '' @
             ''Try asking about spending totals, flagged receipts, or payment methods.''),
           body_intent = None, body_sql = None,
           body_error = Some ''Could not generate SQL - is Ollama running?'',
           body_details = None, body_referencedReceipts = None, body_resultCount = None \<rparr>)"
  using assms by (simp add: sql_POST_def emptyBody_def Let_def)

lemma sql_POST_executed:
  assumes "req_message req = Some message" and "message \<noteq> []"
    and "generateSQL env message = Some s"
  shows "executed (fst (sql_POST env w req)) = executed w @ [(s, [])]"
  using assms
  by (simp add: sql_POST_def Let_def saveChat_def split: sum.splits option.splits)

text \<open>
  C6. On the text-to-SQL route, when the reply of the model, with the code-fence markers
  removed and trimmed, begins with "select" in any letter case, it is the statement that is
  run. Otherwise \<open>generateSQL\<close> gives nothing, no statement is run and nothing is saved,
  and the response has status 200 with the fixed apology as message, no query and the
  \<open>error\<close> field set.
\<close>

theorem non_select_reply_rejected:
  assumes "req_message req = Some message" and "message \<noteq> []"
    and "ollama_generate env message = Replied response"
  shows "if startsWith (toLowerCase (cleanSql response)) ''select''
         then generateSQL env message = Some (cleanSql response) \<and>
              executed (fst (sql_POST env w req)) = executed w @ [(cleanSql response, [])]
         else generateSQL env message = None \<and>
              sql_POST env w req =
                (w, \<lparr> status = 200, body_sessionId = Some (sessionOf env req),
                      body_message = Some (''I couldn't understand that question. '' @
                        ''Try asking about spending totals, flagged receipts, or payment methods.''),
                      body_intent = None, body_sql = None,
                      body_error = Some ''Could not generate SQL - is Ollama running?'',
                      body_details = None, body_referencedReceipts = None,
                      body_resultCount = None \<rparr>)"
proof (cases "startsWith (toLowerCase (cleanSql response)) ''select''")
  case True
  then have "generateSQL env message = Some (cleanSql response)"
    using assms(3) by (simp add: generateSQL_Replied)
  with True sql_POST_executed [OF assms(1,2)] show ?thesis by simp
next
  case False
  then have "generateSQL env message = None"
    using assms(3) by (simp add: generateSQL_Replied)
  with False sql_POST_rejected [OF assms(1,2)] show ?thesis by simp
qed

lemma refusal_not_select:
  "\<not> startsWith (toLowerCase (cleanSql (Some ''I cannot help with that''))) ''select''"
  by code_simp

lemma fenced_reply_clean:
  "cleanSql (Some (CHR 0xA0 # ''```sql\<newline>SELECT COUNT(*) FROM receipts\<newline>``` '')) =
     ''SELECT COUNT(*) FROM receipts'' \<and>
   startsWith (toLowerCase ''SELECT COUNT(*) FROM receipts'') ''select''"
  by code_simp

theorem non_select_reply_rejected_witness:
  "sql_POST (exampleEnv (Replied (Some ''I cannot help with that'')) exampleRows) emptyWorld
     (exampleRequest ''How much did we spend?'') =
   (emptyWorld,
    \<lparr> status = 200, body_sessionId = Some ''session-1'',
      body_message = Some (''I couldn't understand that question. '' @
        ''Try asking about spending totals, flagged receipts, or payment methods.''),
      body_intent = None, body_sql = None,
      body_error = Some ''Could not generate SQL - is Ollama running?'',
      body_details = None, body_referencedReceipts = None, body_resultCount = None \<rparr>) \<and>
   executed (fst (sql_POST
     (exampleEnv
        (Replied (Some (CHR 0xA0 # ''```sql\<newline>SELECT COUNT(*) FROM receipts\<newline>``` '')))
        exampleRows)
     emptyWorld (exampleRequest ''How many receipts?''))) =
     [(''SELECT COUNT(*) FROM receipts'', [])]"
proof -
  have h1: "req_message (exampleRequest ''How much did we spend?'') =
      Some ''How much did we spend?''"
    by (simp add: exampleRequest_simps)
  have h2: "''How much did we spend?'' \<noteq> []" by simp
  have h3: "ollama_generate (exampleEnv (Replied (Some ''I cannot help with that'')) exampleRows)
      ''How much did we spend?'' = Replied (Some ''I cannot help with that'')"
    by (simp add: exampleEnv_simps)
  have rejected: "sql_POST (exampleEnv (Replied (Some ''I cannot help with that'')) exampleRows)
      emptyWorld (exampleRequest ''How much did we spend?'') =
    (emptyWorld,
     \<lparr> status = 200, body_sessionId = Some ''session-1'',
       body_message = Some (''I couldn't understand that question. '' @
         ''Try asking about spending totals, flagged receipts, or payment methods.''),
       body_intent = None, body_sql = None,
       body_error = Some ''Could not generate SQL - is Ollama running?'',
       body_details = None, body_referencedReceipts = None, body_resultCount = None \<rparr>)"
    using non_select_reply_rejected [OF h1 h2 h3, of emptyWorld] refusal_not_select
    by (simp add: exampleRequest_simps)
  have g1: "req_message (exampleRequest ''How many receipts?'') = Some ''How many receipts?''"
    by (simp add: exampleRequest_simps)
  have g2: "''How many receipts?'' \<noteq> []" by simp
  have g3: "ollama_generate
      (exampleEnv
         (Replied (Some (CHR 0xA0 # ''```sql\<newline>SELECT COUNT(*) FROM receipts\<newline>``` '')))
         exampleRows)
      ''How many receipts?'' =
      Replied (Some (CHR 0xA0 # ''```sql\<newline>SELECT COUNT(*) FROM receipts\<newline>``` ''))"
    by (simp add: exampleEnv_simps)
  have accepted: "executed (fst (sql_POST
      (exampleEnv
         (Replied (Some (CHR 0xA0 # ''```sql\<newline>SELECT COUNT(*) FROM receipts\<newline>``` '')))
         exampleRows)
      emptyWorld (exampleRequest ''How many receipts?''))) =
      [(''SELECT COUNT(*) FROM receipts'', [])]"
    using non_select_reply_rejected [OF g1 g2 g3, of emptyWorld] fenced_reply_clean
    by (simp add: emptyWorld_def)
  from rejected accepted show ?thesis ..
qed

lemma chat_POST_ok:
  assumes "req_message req = Some message" and "message \<noteq> []"
    and "db_all env (sql (parseQuery message)) (params (parseQuery message)) = Inr results"
  shows "chat_POST env w req =
     (saveChat env (sessionOf env req) message
        (generateResponse (templates env) (intent (parseQuery message)) results message)
        (chat_referencedReceipts results)
        (w\<lparr> executed := executed w @ [(sql (parseQuery message), params (parseQuery message))] \<rparr>),
      \<lparr> status = 200, body_sessionId = Some (sessionOf env req),
        body_message =
          Some (generateResponse (templates env) (intent (parseQuery message)) results message),
        body_intent = Some (intent (parseQuery message)), body_sql = None,
        body_error = None, body_details = None,
        body_referencedReceipts = Some (chat_referencedReceipts results),
        body_resultCount = Some (length results) \<rparr>)"
  using assms by (simp add: chat_POST_def emptyBody_def Let_def)

text \<open>
  C8. For every intent, \<open>generateResponse\<close> answers an empty result with the one fixed
  sentence; a request whose query returns no row is answered with status 200, that sentence
  as message, an empty list of referenced receipts and the result count 0.
\<close>

theorem empty_result_fixed_message:
  assumes "req_message req = Some message" and "message \<noteq> []"
    and "db_all env (sql (parseQuery message)) (params (parseQuery message)) = Inr []"
  shows "generateResponse tm intent' [] query =
           ''I couldn't find any receipts matching your query.'' \<and>
         status (snd (chat_POST env w req)) = 200 \<and>
         body_message (snd (chat_POST env w req)) =
           Some ''I couldn't find any receipts matching your query.'' \<and>
         body_referencedReceipts (snd (chat_POST env w req)) = Some [] \<and>
         body_resultCount (snd (chat_POST env w req)) = Some 0"
  by (simp add: chat_POST_ok [OF assms] generateResponse_def chat_referencedReceipts_def)

theorem empty_result_fixed_message_witness:
  "generateResponse (\<lambda>i rs q. ''(listing)'') ''tax_info'' [] ''What is the tax breakdown?'' =
     ''I couldn't find any receipts matching your query.'' \<and>
   status (snd (chat_POST (exampleEnv NotOk []) emptyWorld
     (exampleRequest ''What is the tax breakdown?''))) = 200 \<and>
   body_message (snd (chat_POST (exampleEnv NotOk []) emptyWorld
     (exampleRequest ''What is the tax breakdown?''))) =
     Some ''I couldn't find any receipts matching your query.'' \<and>
   body_referencedReceipts (snd (chat_POST (exampleEnv NotOk []) emptyWorld
     (exampleRequest ''What is the tax breakdown?''))) = Some [] \<and>
   body_resultCount (snd (chat_POST (exampleEnv NotOk []) emptyWorld
     (exampleRequest ''What is the tax breakdown?''))) = Some 0"
proof -
  have h1: "req_message (exampleRequest ''What is the tax breakdown?'') =
      Some ''What is the tax breakdown?''"
    by (simp add: exampleRequest_simps)
  have h2: "''What is the tax breakdown?'' \<noteq> []" by simp
  have h3: "db_all (exampleEnv NotOk []) (sql (parseQuery ''What is the tax breakdown?''))
      (params (parseQuery ''What is the tax breakdown?'')) = Inr []"
    by (simp add: exampleEnv_simps)
  show ?thesis
    by (rule empty_result_fixed_message [OF h1 h2 h3])
qed

lemma subseq_take_filter: "subseq (take n (filter P xs)) xs"
proof -
  have "subseq (take n (filter P xs)) (filter P xs)"
    by (rule prefix_imp_subseq) (rule take_is_prefix)
  also have "subseq (filter P xs) xs" by simp
  finally show ?thesis .
qed

lemma set_take_filter_subset: "set (take n (filter P xs)) \<subseteq> set xs"
  using set_take_subset [of n "filter P xs"] by auto

lemma chat_referencedReceipts_eq:
  "chat_referencedReceipts results =
     take 20 (filter truthy (map (\<lambda>r. getProp r ''id'') results))"
  by (simp add: chat_referencedReceipts_def filter_map comp_def)

lemma startsWith_nonempty: "startsWith s (p # ps) \<Longrightarrow> s \<noteq> []"
  by (cases s) simp_all

lemma keepsCordId_True: "keepsCordId r = Some True \<longleftrightarrow> isCordId (getProp r ''id'')"
  by (auto simp: keepsCordId_def isCordId_def dest: startsWith_nonempty
      split: JsValue.splits if_splits)

lemma sql_referencedReceipts_eq:
  assumes "sql_referencedReceipts results = Some refs"
  shows "refs = take 20 (filter isCordId (map (\<lambda>r. getProp r ''id'') results))"
proof -
  have "refs = take 20 (map (\<lambda>r. getProp r ''id'')
                 (filter (\<lambda>r. keepsCordId r = Some True) results))"
    using assms by (simp add: sql_referencedReceipts_def split: if_splits)
  then show ?thesis
    by (simp add: filter_map comp_def keepsCordId_True)
qed

lemma saveChat_last:
  "role (last (chat_history (saveChat env sessionId message response refs w))) =
     ''assistant'' \<and>
   referenced_receipts (last (chat_history (saveChat env sessionId message response refs w))) =
     Some refs"
  by (simp add: saveChat_def)

lemma sql_POST_ok:
  assumes "req_message req = Some message" and "message \<noteq> []"
    and "generateSQL env message = Some s" and "db_all env s [] = Inr results"
    and "sql_referencedReceipts results = Some refs"
  shows "sql_POST env w req =
     (saveChat env (sessionOf env req) message (formatAnswer env message s results) refs
        (w\<lparr> executed := executed w @ [(s, [])] \<rparr>),
      \<lparr> status = 200, body_sessionId = Some (sessionOf env req),
        body_message = Some (formatAnswer env message s results),
        body_intent = None, body_sql = Some s, body_error = None, body_details = None,
        body_referencedReceipts = Some refs,
        body_resultCount = Some (length results) \<rparr>)"
  using assms by (simp add: sql_POST_def emptyBody_def Let_def)

lemma sql_POST_status_200:
  assumes "req_message req = Some message" and "message \<noteq> []"
    and "generateSQL env message = Some s" and "db_all env s [] = Inr results"
    and "status (snd (sql_POST env w req)) = 200"
  shows "\<exists>refs. sql_referencedReceipts results = Some refs"
  using assms
  by (cases "sql_referencedReceipts results") (simp_all add: sql_POST_def emptyBody_def Let_def)

text \<open>
  On the text-to-SQL route a query that returns the one row of a receipt created by upload,
  whose identifier is a UUID, is answered with status 200 and an empty list of referenced
  receipts.
\<close>

theorem referenced_receipts_counterexample:
  "getProp [(''id'', Str ''7c9e6679-7425-40de-944b-e07fc1f90ae7''), (''total_amount'', Num (Fin 52000))]
     ''id'' = Str ''7c9e6679-7425-40de-944b-e07fc1f90ae7'' \<and>
   status (snd (sql_POST
     (exampleEnv (Replied (Some ''SELECT r.id, r.total_amount FROM receipts r''))
        [[(''id'', Str ''7c9e6679-7425-40de-944b-e07fc1f90ae7''), (''total_amount'', Num (Fin 52000))]])
     emptyWorld (exampleRequest ''Show all receipts''))) = 200 \<and>
   body_referencedReceipts (snd (sql_POST
     (exampleEnv (Replied (Some ''SELECT r.id, r.total_amount FROM receipts r''))
        [[(''id'', Str ''7c9e6679-7425-40de-944b-e07fc1f90ae7''), (''total_amount'', Num (Fin 52000))]])
     emptyWorld (exampleRequest ''Show all receipts''))) = Some []"
proof -
  have clean: "startsWith (toLowerCase
        (cleanSql (Some ''SELECT r.id, r.total_amount FROM receipts r''))) ''select''"
    by code_simp
  have gen: "generateSQL
      (exampleEnv (Replied (Some ''SELECT r.id, r.total_amount FROM receipts r''))
        [[(''id'', Str ''7c9e6679-7425-40de-944b-e07fc1f90ae7''), (''total_amount'', Num (Fin 52000))]])
      ''Show all receipts'' =
      Some (cleanSql (Some ''SELECT r.id, r.total_amount FROM receipts r''))"
    using clean by (simp add: generateSQL_Replied exampleEnv_simps)
  have refs: "sql_referencedReceipts
      [[(''id'', Str ''7c9e6679-7425-40de-944b-e07fc1f90ae7''), (''total_amount'', Num (Fin 52000))]] =
      Some []"
    by (simp add: sql_referencedReceipts_def keepsCordId_def getProp_def)
  have "req_message (exampleRequest ''Show all receipts'') = Some ''Show all receipts''"
    by (simp add: exampleRequest_simps)
  from sql_POST_ok [OF this _ gen _ refs, of emptyWorld]
  show ?thesis by (simp add: exampleEnv_simps getProp_def)
qed

text \<open>
  C9, as amended. On the rule-based route the referenced receipts of a response are the
  first 20 non-empty identifiers of the result rows, in result order; on the text-to-SQL
  route they are the first 20 identifiers of the result rows that are strings beginning with
  "cord_", in result order. On both routes the list is stored on the assistant message, has
  at most 20 entries, keeps the order of the result, and every entry is the identifier of a
  row of the result that produced the response.
\<close>

theorem referenced_receipts_from_results:
  assumes "req_message req = Some message" and "message \<noteq> []"
  shows "(db_all env (sql (parseQuery message)) (params (parseQuery message)) = Inr results \<longrightarrow>
          (let refs = take 20 (filter truthy (map (\<lambda>r. getProp r ''id'') results));
               out = chat_POST env w req
           in body_referencedReceipts (snd out) = Some refs \<and>
              role (last (chat_history (fst out))) = ''assistant'' \<and>
              referenced_receipts (last (chat_history (fst out))) = Some refs \<and>
              length refs \<le> 20 \<and>
              subseq refs (map (\<lambda>r. getProp r ''id'') results) \<and>
              set refs \<subseteq> (\<lambda>r. getProp r ''id'') ` set results)) \<and>
         (generateSQL env message = Some s \<and> db_all env s [] = Inr results \<and>
          status (snd (sql_POST env w req)) = 200 \<longrightarrow>
          (let refs = take 20 (filter isCordId (map (\<lambda>r. getProp r ''id'') results));
               out = sql_POST env w req
           in body_referencedReceipts (snd out) = Some refs \<and>
              role (last (chat_history (fst out))) = ''assistant'' \<and>
              referenced_receipts (last (chat_history (fst out))) = Some refs \<and>
              length refs \<le> 20 \<and>
              subseq refs (map (\<lambda>r. getProp r ''id'') results) \<and>
              set refs \<subseteq> (\<lambda>r. getProp r ''id'') ` set results))"
proof (intro conjI impI)
  assume db: "db_all env (sql (parseQuery message)) (params (parseQuery message)) = Inr results"
  have sub: "set (take 20 (filter truthy (map (\<lambda>r. getProp r ''id'') results)))
      \<subseteq> (\<lambda>r. getProp r ''id'') ` set results"
    using set_take_filter_subset [of 20 truthy "map (\<lambda>r. getProp r ''id'') results"] by simp
  show "let refs = take 20 (filter truthy (map (\<lambda>r. getProp r ''id'') results));
            out = chat_POST env w req
        in body_referencedReceipts (snd out) = Some refs \<and>
           role (last (chat_history (fst out))) = ''assistant'' \<and>
           referenced_receipts (last (chat_history (fst out))) = Some refs \<and>
           length refs \<le> 20 \<and>
           subseq refs (map (\<lambda>r. getProp r ''id'') results) \<and>
           set refs \<subseteq> (\<lambda>r. getProp r ''id'') ` set results"
    unfolding Let_def chat_POST_ok [OF assms db] fst_conv snd_conv
    using sub
    by (simp add: saveChat_last chat_referencedReceipts_eq subseq_take_filter)
next
  assume h: "generateSQL env message = Some s \<and> db_all env s [] = Inr results \<and>
      status (snd (sql_POST env w req)) = 200"
  then have gen: "generateSQL env message = Some s" and db: "db_all env s [] = Inr results"
    and ok: "status (snd (sql_POST env w req)) = 200"
    by simp_all
  from sql_POST_status_200 [OF assms gen db ok]
  obtain refs where refs: "sql_referencedReceipts results = Some refs" ..
  have eq: "refs = take 20 (filter isCordId (map (\<lambda>r. getProp r ''id'') results))"
    using refs by (rule sql_referencedReceipts_eq)
  have sub: "set (take 20 (filter isCordId (map (\<lambda>r. getProp r ''id'') results)))
      \<subseteq> (\<lambda>r. getProp r ''id'') ` set results"
    using set_take_filter_subset [of 20 isCordId "map (\<lambda>r. getProp r ''id'') results"] by simp
  show "let refs = take 20 (filter isCordId (map (\<lambda>r. getProp r ''id'') results));
            out = sql_POST env w req
        in body_referencedReceipts (snd out) = Some refs \<and>
           role (last (chat_history (fst out))) = ''assistant'' \<and>
           referenced_receipts (last (chat_history (fst out))) = Some refs \<and>
           length refs \<le> 20 \<and>
           subseq refs (map (\<lambda>r. getProp r ''id'') results) \<and>
           set refs \<subseteq> (\<lambda>r. getProp r ''id'') ` set results"
    unfolding Let_def sql_POST_ok [OF assms gen db refs] fst_conv snd_conv
    using sub eq
    by (simp add: saveChat_last subseq_take_filter)
qed

lemma example_statement:
  "generateSQL (exampleEnv (Replied (Some ''SELECT r.id, r.total_amount FROM receipts r''))
       exampleRows) ''Show receipts above 50000'' =
     Some ''SELECT r.id, r.total_amount FROM receipts r''"
proof -
  have "cleanSql (Some ''SELECT r.id, r.total_amount FROM receipts r'') =
      ''SELECT r.id, r.total_amount FROM receipts r''"
    by code_simp
  moreover have "startsWith (toLowerCase ''SELECT r.id, r.total_amount FROM receipts r'')
      ''select''"
    by code_simp
  ultimately show ?thesis
    by (simp add: generateSQL_Replied exampleEnv_simps)
qed

lemma exampleRows_ids:
  "map (\<lambda>r. getProp r ''id'') exampleRows =
     [Str ''cord_0007'', Str ''7c9e6679-7425-40de-944b-e07fc1f90ae7'', Undefined]"
  by (simp add: exampleRows_def getProp_def)

lemma exampleRows_refs: "sql_referencedReceipts exampleRows = Some [Str ''cord_0007'']"
  by (simp add: sql_referencedReceipts_def keepsCordId_def exampleRows_def getProp_def)

theorem referenced_receipts_from_results_witness:
  "body_referencedReceipts (snd (chat_POST
     (exampleEnv (Replied (Some ''SELECT r.id, r.total_amount FROM receipts r'')) exampleRows)
     emptyWorld (exampleRequest ''Show receipts above 50000''))) =
     Some [Str ''cord_0007'', Str ''7c9e6679-7425-40de-944b-e07fc1f90ae7''] \<and>
   body_referencedReceipts (snd (sql_POST
     (exampleEnv (Replied (Some ''SELECT r.id, r.total_amount FROM receipts r'')) exampleRows)
     emptyWorld (exampleRequest ''Show receipts above 50000''))) =
     Some [Str ''cord_0007'']"
proof -
  have h1: "req_message (exampleRequest ''Show receipts above 50000'') =
      Some ''Show receipts above 50000''"
    by (simp add: exampleRequest_simps)
  have h2: "''Show receipts above 50000'' \<noteq> []" by simp
  have db: "db_all
      (exampleEnv (Replied (Some ''SELECT r.id, r.total_amount FROM receipts r'')) exampleRows)
      statement ps = Inr exampleRows" for statement ps
    by (simp add: exampleEnv_simps)
  have ok: "status (snd (sql_POST
      (exampleEnv (Replied (Some ''SELECT r.id, r.total_amount FROM receipts r'')) exampleRows)
      emptyWorld (exampleRequest ''Show receipts above 50000''))) = 200"
    by (simp add: sql_POST_ok [OF h1 h2 example_statement db exampleRows_refs])
  from referenced_receipts_from_results [OF h1 h2,
      of "exampleEnv (Replied (Some ''SELECT r.id, r.total_amount FROM receipts r'')) exampleRows"
         exampleRows emptyWorld "''SELECT r.id, r.total_amount FROM receipts r''"]
    db example_statement ok
  show ?thesis
    by (simp add: Let_def exampleRows_ids truthy_def isCordId_def)
qed

end
